theory Spec2Isabelle
  imports Complex_Main "HOL-Library.Sublist"
begin

chapter \<open>PradoWrites: the six pure functions of the blog and its dashboard\<close>

text \<open>
  The repository is a React front end. Its specifiable core is six pure JavaScript
  functions of \<^verbatim>\<open>src/App.jsx\<close> (the same bodies appear in the other
  snapshots of the file): \<^verbatim>\<open>searchPosts\<close>, \<^verbatim>\<open>Markdown\<close>,
  \<^verbatim>\<open>computeMvrvDomain\<close>, \<^verbatim>\<open>buildAlerts\<close>,
  \<^verbatim>\<open>mergeSeries\<close> and \<^verbatim>\<open>compute10DayTicks\<close>.
  Each is embedded below as a HOL function that follows the source statement by
  statement; the properties come after all definitions.

  Conventions of the embedding.
  \<^item> An array argument that the source tests with \<^verbatim>\<open>Array.isArray\<close> or reads
    through \<^verbatim>\<open>?.\<close> is a \<open>list option\<close>; \<open>None\<close> stands for
    \<^verbatim>\<open>null\<close>/\<^verbatim>\<open>undefined\<close>.
  \<^item> A number is a \<open>jsnum\<close>: a finite double (the real number it denotes), one of
    the two infinities, or NaN. An arithmetic operation computes the exact result
    and rounds it to the nearest double, ties to even (\<open>fl\<close>); comparisons are
    exact. The sign of zero is not modelled.
  \<^item> Timestamps are \<open>int\<close> (epoch milliseconds held by a double). The merger only
    compares and copies them; the tick generator computes with them and rounds every
    result to 53 significant bits (\<open>round53\<close>).
  \<^item> Strings are \<open>string\<close>; line terminators are those of ASCII text. The case
    mapping of \<^verbatim>\<open>toLowerCase\<close> is a table of the language, not of the
    repository: the search filter takes it as a parameter.
  \<^item> A \<^verbatim>\<open>TypeError\<close> that the source can raise on these inputs is the
    value \<open>Inl TypeError\<close>; a loop that does not end is the value \<open>None\<close>.
\<close>

section \<open>JavaScript values\<close>

datatype error = TypeError

datatype jsnum = Fin real | PosInf | NegInf | NaN

datatype jsval = Undefined | Null | Num jsnum | Str string

text \<open>The relational operators on numbers: every comparison with NaN is false.\<close>

fun js_lt :: "jsnum \<Rightarrow> jsnum \<Rightarrow> bool" where
  "js_lt NaN b = False"
| "js_lt a NaN = False"
| "js_lt (Fin a) (Fin b) = (a < b)"
| "js_lt (Fin a) PosInf = True"
| "js_lt (Fin a) NegInf = False"
| "js_lt PosInf b = False"
| "js_lt NegInf NegInf = False"
| "js_lt NegInf b = True"

definition js_gt :: "jsnum \<Rightarrow> jsnum \<Rightarrow> bool" where
  "js_gt a b = js_lt b a"

definition js_ge :: "jsnum \<Rightarrow> jsnum \<Rightarrow> bool" where
  "js_ge a b = (a \<noteq> NaN \<and> b \<noteq> NaN \<and> \<not> js_lt a b)"

text \<open>
  \<^verbatim>\<open>arr?.length || 0\<close> and \<^verbatim>\<open>arr[i]\<close>: the first tolerates an absent array,
  the second raises on it and yields \<^verbatim>\<open>undefined\<close> (here \<open>None\<close>) out of range.
\<close>

definition arr_length :: "'a list option \<Rightarrow> nat" where
  "arr_length arr = (case arr of None \<Rightarrow> 0 | Some xs \<Rightarrow> length xs)"

definition arr_index :: "'a list option \<Rightarrow> nat \<Rightarrow> error + 'a option" where
  "arr_index arr i =
     (case arr of
        None \<Rightarrow> Inl TypeError
      | Some xs \<Rightarrow> Inr (if i < length xs then Some (xs ! i) else None))"

text \<open>
  The remainder operator \<^verbatim>\<open>%\<close> on integers: the result has the sign of the
  dividend (truncated division), unlike \<open>mod\<close> on \<open>int\<close>.
\<close>

definition js_rem :: "int \<Rightarrow> int \<Rightarrow> int" where
  "js_rem a b = sgn a * (\<bar>a\<bar> mod \<bar>b\<bar>)"


text \<open>
  Rounding to the nearest double. For \<open>x \<noteq> 0\<close>, with \<open>2 ^ e \<le> \<bar>x\<bar> < 2 ^ (e + 1)\<close>,
  the doubles around \<open>x\<close> are the multiples of \<open>2 ^ q\<close> where
  \<open>q = max (e - 52) (- 1074)\<close> (53 significant bits; the subnormal spacing below
  \<open>2 ^ (- 1022)\<close>); the multiple nearest to \<open>\<bar>x\<bar>\<close> is taken, the even one on a
  tie, and a result of \<open>2 ^ 1024\<close> or more is infinite.
\<close>

definition twop :: "int \<Rightarrow> real" where
  "twop e = (if 0 \<le> e then 2 ^ nat e else 1 / 2 ^ nat (- e))"

function expo_up :: "real \<Rightarrow> int" where
  "expo_up x = (if x < 2 then 0 else 1 + expo_up (x / 2))"
  by pat_completeness auto
termination
  by (relation "measure (\<lambda>x. nat \<lceil>x\<rceil>)") (auto, linarith)

function expo_down :: "real \<Rightarrow> int" where
  "expo_down x = (if 1 \<le> x \<or> x \<le> 0 then 0 else expo_down (x * 2) - 1)"
  by pat_completeness auto
termination
proof (relation "measure (\<lambda>x. nat \<lceil>1 / x\<rceil>)")
  show "wf (measure (\<lambda>x :: real. nat \<lceil>1 / x\<rceil>))" by simp
next
  fix x :: real
  assume "\<not> (1 \<le> x \<or> x \<le> 0)"
  then have x: "0 < x" "x < 1" by simp_all
  define y where "y = 1 / x"
  have y1: "1 < y" using x by (simp add: y_def)
  have half: "1 / (x * 2) = y / 2" by (simp add: y_def)
  have le: "y \<le> of_int \<lceil>y\<rceil>" by (rule le_of_int_ceiling)
  have "1 < \<lceil>y\<rceil>" using y1 le by linarith
  then have "(2 :: real) \<le> of_int \<lceil>y\<rceil>" by linarith
  with le have "y / 2 \<le> of_int \<lceil>y\<rceil> - 1" by linarith
  then have "y / 2 \<le> of_int (\<lceil>y\<rceil> - 1)" by simp
  then have "\<lceil>y / 2\<rceil> \<le> \<lceil>y\<rceil> - 1" by (rule ceiling_le)
  moreover have "0 < \<lceil>y\<rceil>" using y1 le by linarith
  ultimately have "nat \<lceil>y / 2\<rceil> < nat \<lceil>y\<rceil>" by linarith
  then show "(x * 2, x) \<in> measure (\<lambda>x. nat \<lceil>1 / x\<rceil>)"
    unfolding in_measure half y_def .
qed

declare expo_up.simps [simp del] expo_down.simps [simp del]

definition binexp :: "real \<Rightarrow> int" where
  "binexp x = (if 1 \<le> x then expo_up x else expo_down x)"

definition round_half_even :: "real \<Rightarrow> int" where
  "round_half_even m =
     (if m - of_int \<lfloor>m\<rfloor> < 1 / 2 then \<lfloor>m\<rfloor>
      else if 1 / 2 < m - of_int \<lfloor>m\<rfloor> then \<lfloor>m\<rfloor> + 1
      else if even \<lfloor>m\<rfloor> then \<lfloor>m\<rfloor> else \<lfloor>m\<rfloor> + 1)"

definition fl :: "real \<Rightarrow> jsnum" where
  "fl x =
     (if x = 0 then Fin 0
      else (let q = max (binexp \<bar>x\<bar> - 52) (- 1074);
                r = of_int (round_half_even (\<bar>x\<bar> / twop q)) * twop q
            in if 2 ^ 1024 \<le> r then (if x < 0 then NegInf else PosInf)
               else Fin (sgn x * r)))"

text \<open>
  The arithmetic of numbers: NaN propagates, the infinities follow the usual rules
  (\<open>\<infinity> - \<infinity>\<close>, \<open>0 \<times> \<infinity>\<close>, \<open>\<infinity> / \<infinity>\<close> and \<open>0 / 0\<close> are NaN), and two finite
  operands give the rounded exact result.
\<close>

definition isFinite :: "jsnum \<Rightarrow> bool" where
  "isFinite a = (case a of Fin x \<Rightarrow> True | _ \<Rightarrow> False)"

definition sign_of :: "jsnum \<Rightarrow> real" where
  "sign_of a = (case a of Fin x \<Rightarrow> sgn x | PosInf \<Rightarrow> 1 | NegInf \<Rightarrow> - 1 | NaN \<Rightarrow> 0)"

definition inf_of_sign :: "real \<Rightarrow> jsnum" where
  "inf_of_sign s = (if s = 0 then NaN else if 0 < s then PosInf else NegInf)"

definition js_neg :: "jsnum \<Rightarrow> jsnum" where
  "js_neg a = (case a of Fin x \<Rightarrow> Fin (- x) | PosInf \<Rightarrow> NegInf | NegInf \<Rightarrow> PosInf | NaN \<Rightarrow> NaN)"

definition js_add :: "jsnum \<Rightarrow> jsnum \<Rightarrow> jsnum" where
  "js_add a b =
     (if a = NaN \<or> b = NaN then NaN
      else (case (a, b) of
              (Fin x, Fin y) \<Rightarrow> fl (x + y)
            | (Fin x, _) \<Rightarrow> b
            | (_, Fin y) \<Rightarrow> a
            | (_, _) \<Rightarrow> if a = b then a else NaN))"

definition js_sub :: "jsnum \<Rightarrow> jsnum \<Rightarrow> jsnum" where
  "js_sub a b = js_add a (js_neg b)"

definition js_mul :: "jsnum \<Rightarrow> jsnum \<Rightarrow> jsnum" where
  "js_mul a b =
     (if a = NaN \<or> b = NaN then NaN
      else (case (a, b) of
              (Fin x, Fin y) \<Rightarrow> fl (x * y)
            | (_, _) \<Rightarrow> inf_of_sign (sign_of a * sign_of b)))"

definition js_div :: "jsnum \<Rightarrow> jsnum \<Rightarrow> jsnum" where
  "js_div a b =
     (if a = NaN \<or> b = NaN then NaN
      else (case (a, b) of
              (Fin x, Fin y) \<Rightarrow> if y = 0 then inf_of_sign (sgn x) else fl (x / y)
            | (Fin x, _) \<Rightarrow> Fin 0
            | (_, Fin y) \<Rightarrow> if y = 0 then a else inf_of_sign (sign_of a * sgn y)
            | (_, _) \<Rightarrow> NaN))"

definition js_floor :: "jsnum \<Rightarrow> jsnum" where
  "js_floor a = (case a of Fin x \<Rightarrow> Fin (of_int \<lfloor>x\<rfloor>) | _ \<Rightarrow> a)"

definition js_ceil :: "jsnum \<Rightarrow> jsnum" where
  "js_ceil a = (case a of Fin x \<Rightarrow> Fin (of_int \<lceil>x\<rceil>) | _ \<Rightarrow> a)"

definition js_max :: "jsnum \<Rightarrow> jsnum \<Rightarrow> jsnum" where
  "js_max a b = (if a = NaN \<or> b = NaN then NaN else if js_lt a b then b else a)"

section \<open>Data model\<close>

text \<open>
  An alert \<^verbatim>\<open>{ level, title, desc }\<close>. The description is a template literal;
  it is kept as its pieces, the numbers unformatted (\<^verbatim>\<open>mv.toFixed(2)\<close> and
  the plain conversion of \<^verbatim>\<open>${fg}\<close>).
\<close>

datatype alert_level = HIGH | MEDIUM

datatype desc_part = Lit string | ToFixed2 jsnum | ToString jsnum

record alert =
  level :: alert_level
  title :: string
  desc :: "desc_part list"

text \<open>
  The argument of \<^verbatim>\<open>buildAlerts\<close>: \<^verbatim>\<open>{ mvrv: { current, ... }, fngValue }\<close>,
  where \<^verbatim>\<open>state\<close> itself and \<^verbatim>\<open>state.mvrv\<close> may be absent.
\<close>

record mvrv_state =
  current :: jsval

record dash_state =
  mvrv :: "mvrv_state option"
  fngValue :: jsval

text \<open>
  A post of the index. \<^verbatim>\<open>excerpt\<close> may be missing (the source reads
  \<^verbatim>\<open>p.excerpt || ""\<close>) and \<^verbatim>\<open>tags\<close> may fail \<^verbatim>\<open>Array.isArray\<close>.
\<close>

record post =
  slug :: string
  title :: string
  date :: string
  excerpt :: "string option"
  tags :: "string list option"
  mdPath :: string

text \<open>
  A point of a series: \<^verbatim>\<open>{ t, price }\<close>, \<^verbatim>\<open>{ t, mvrv }\<close> or a merged
  \<^verbatim>\<open>{ t, price, mvrv }\<close>. A property the object does not have reads as
  \<open>Undefined\<close>.
\<close>

record point =
  t :: int
  price :: jsval
  mvrv :: jsval

section \<open>Text search filter\<close>

text \<open>
  \<^verbatim>\<open>
  export function searchPosts(posts, q, contentMap) {
    if (!q) return posts;
    const query = q.toLowerCase();
    return posts.filter((p) => {
      const inTitle = p.title.toLowerCase().includes(query);
      const inExcerpt = (p.excerpt || "").toLowerCase().includes(query);
      const inTags = Array.isArray(p.tags) && p.tags.some((t) => String(t).toLowerCase().includes(query));
      const content = contentMap?.[p.slug] || "";
      const inContent = content.toLowerCase().includes(query);
      return inTitle || inExcerpt || inTags || inContent;
    });
  }
  \<close>
  The content map is a plain object, as the program builds it
  (\<^verbatim>\<open>useState({})\<close>, then \<^verbatim>\<open>{ ...m, [meta.slug]: txt }\<close>), or absent. Its
  own properties are the loaded bodies; a key it does not own is looked up on
  \<^verbatim>\<open>Object.prototype\<close>, whose properties are functions (or, for
  \<^verbatim>\<open>__proto__\<close>, the prototype object): truthy values that are not strings.
\<close>

definition object_prototype_keys :: "string list" where
  "object_prototype_keys =
     [''constructor'', ''__defineGetter__'', ''__defineSetter__'', ''hasOwnProperty'',
      ''__lookupGetter__'', ''__lookupSetter__'', ''isPrototypeOf'',
      ''propertyIsEnumerable'', ''toString'', ''valueOf'', ''__proto__'',
      ''toLocaleString'']"

datatype prop_value = Missing | Body string | Inherited

definition content_lookup :: "(string \<rightharpoonup> string) option \<Rightarrow> string \<Rightarrow> prop_value" where
  "content_lookup contentMap k =
     (case contentMap of
        None \<Rightarrow> Missing
      | Some m \<Rightarrow>
          (case m k of
             Some body \<Rightarrow> Body body
           | None \<Rightarrow> if k \<in> set object_prototype_keys then Inherited else Missing))"

text \<open>\<^verbatim>\<open>v || ""\<close>: an undefined value and the empty string give the empty string.\<close>

definition or_empty_prop :: "prop_value \<Rightarrow> prop_value" where
  "or_empty_prop v = (case v of Missing \<Rightarrow> Body [] | _ \<Rightarrow> v)"

definition or_empty :: "string option \<Rightarrow> string" where
  "or_empty v = (case v of None \<Rightarrow> [] | Some s \<Rightarrow> s)"

definition js_includes :: "string \<Rightarrow> string \<Rightarrow> bool" where
  "js_includes s q = sublist q s"

text \<open>
  The callback of the filter. \<open>lc\<close> is the case mapping of
  \<^verbatim>\<open>String.prototype.toLowerCase\<close>. The four constants are computed in the
  order of the source; the call \<^verbatim>\<open>content.toLowerCase()\<close> raises when
  \<^verbatim>\<open>content\<close> is not a string.
\<close>

definition post_matches ::
  "(string \<Rightarrow> string) \<Rightarrow> string \<Rightarrow> (string \<rightharpoonup> string) option \<Rightarrow> post \<Rightarrow> error + bool" where
  "post_matches lc query contentMap p =
     (let inTitle = js_includes (lc (post.title p)) query;
          inExcerpt = js_includes (lc (or_empty (excerpt p))) query;
          inTags = (case tags p of
                      None \<Rightarrow> False
                    | Some tgs \<Rightarrow> list_ex (\<lambda>tg. js_includes (lc tg) query) tgs);
          content = or_empty_prop (content_lookup contentMap (slug p))
      in (case content of
            Body s \<Rightarrow> Inr (inTitle \<or> inExcerpt \<or> inTags \<or> js_includes (lc s) query)
          | _ \<Rightarrow> Inl TypeError))"

text \<open>\<^verbatim>\<open>Array.prototype.filter\<close>: the callback runs on the elements in order, and
  the first raise ends the call.\<close>

fun filter_posts :: "(post \<Rightarrow> error + bool) \<Rightarrow> post list \<Rightarrow> error + post list" where
  "filter_posts f [] = Inr []"
| "filter_posts f (p # ps) =
     (case f p of
        Inl e \<Rightarrow> Inl e
      | Inr b \<Rightarrow>
          (case filter_posts f ps of
             Inl e \<Rightarrow> Inl e
           | Inr rest \<Rightarrow> Inr (if b then p # rest else rest)))"

definition searchPosts ::
  "(string \<Rightarrow> string) \<Rightarrow> post list \<Rightarrow> string option \<Rightarrow> (string \<rightharpoonup> string) option
     \<Rightarrow> error + post list" where
  "searchPosts lc posts q contentMap =
     (case q of
        None \<Rightarrow> Inr posts
      | Some qs \<Rightarrow>
          if qs = [] then Inr posts
          else filter_posts (post_matches lc (lc qs) contentMap) posts)"

text \<open>
  The match predicate in the words of the specification: the lowercased query is a
  substring of the lowercased title, or of the lowercased excerpt, or of any lowercased
  tag, or of the lowercased loaded body, if one is present for the slug.
\<close>

definition spec_matches ::
  "(string \<Rightarrow> string) \<Rightarrow> string \<Rightarrow> (string \<rightharpoonup> string) \<Rightarrow> post \<Rightarrow> bool" where
  "spec_matches lc q bodies p =
     (sublist (lc q) (lc (post.title p))
      \<or> (case excerpt p of None \<Rightarrow> False | Some e \<Rightarrow> sublist (lc q) (lc e))
      \<or> (case tags p of
            None \<Rightarrow> False
          | Some tgs \<Rightarrow> list_ex (\<lambda>tg. sublist (lc q) (lc tg)) tgs)
      \<or> (case bodies (slug p) of
            None \<Rightarrow> False
          | Some body \<Rightarrow> sublist (lc q) (lc body)))"

definition loaded_bodies :: "(string \<rightharpoonup> string) option \<Rightarrow> (string \<rightharpoonup> string)" where
  "loaded_bodies contentMap = (case contentMap of None \<Rightarrow> Map.empty | Some m \<Rightarrow> m)"

section \<open>Markdown renderer\<close>

text \<open>
  \<^verbatim>\<open>
  let h = text
    .replace(/^### (.*$)/gim, '<h3 class="text-lg font-semibold mt-6 mb-2">$1</h3>')
    .replace(/^## (.*$)/gim, '<h2 class="text-xl font-semibold mt-8 mb-3">$1</h2>')
    .replace(/^# (.*$)/gim, '<h1 class="text-2xl font-bold mt-8 mb-4">$1</h1>')
    .replace(/^> (.*$)/gim, '<blockquote class="border-l pl-4 italic opacity-80 my-4">$1</blockquote>')
    .replace(/\*\*(.*?)\*\*/gim, '<strong>$1</strong>')
    .replace(/\*(.*?)\*/gim, '<em>$1</em>')
    .replace(/`([^`]+)`/gim, '<code class="px-1 py-0.5 text-sm rounded bg-neutral-800/40">$1</code>')
    .replace(/\n- (.*)/gim, '<ul class="list-disc ml-6 my-2"><li>$1</li></ul>')
    .replace(/\n\n/g, '<br/><br/>');
  h = h.replace(/\[(.*?)\]\((.*?)\)/g,
    '<a class="underline hover:no-underline" href="$2" target="_blank" rel="noreferrer">$1</a>');
  return h;
  \<close>
  Each \<^verbatim>\<open>replace\<close> with a global regular expression is a left-to-right scan
  that rewrites every leftmost match and resumes after it. Each of the six shapes of
  pattern gets its own scanner. The dot matches every character but a line
  terminator.
\<close>

definition is_line_terminator :: "char \<Rightarrow> bool" where
  "is_line_terminator c = (c = CHR 0x0A \<or> c = CHR 0x0D)"

text \<open>A greedy \<^verbatim>\<open>(.*)\<close>: the rest of the line, and what follows it.\<close>

definition dot_star :: "string \<Rightarrow> string" where
  "dot_star s = takeWhile (\<lambda>c. \<not> is_line_terminator c) s"

definition after_dot_star :: "string \<Rightarrow> string" where
  "after_dot_star s = dropWhile (\<lambda>c. \<not> is_line_terminator c) s"

lemma length_after_dot_star: "length (after_dot_star s) \<le> length s"
  by (simp add: after_dot_star_def length_dropWhile_le)

text \<open>
  \<^verbatim>\<open>/^marker(.*$)/gm\<close>: at the start of the input or after a line terminator
  (\<open>bol\<close>), a line that begins with the marker is replaced by its remainder between
  the opening and the closing tag. The match ends at the line terminator, which is
  copied, and the next line starts after it.
\<close>

function line_start_replace ::
  "string \<Rightarrow> string \<Rightarrow> string \<Rightarrow> bool \<Rightarrow> string \<Rightarrow> string" where
  "line_start_replace marker opn cls bol [] = []"
| "line_start_replace marker opn cls bol (c # cs) =
     (if bol \<and> prefix marker (c # cs) then
        opn @ dot_star (drop (length marker) (c # cs)) @ cls @
        (case after_dot_star (drop (length marker) (c # cs)) of
           [] \<Rightarrow> []
         | nl # rest \<Rightarrow> nl # line_start_replace marker opn cls True rest)
      else c # line_start_replace marker opn cls (is_line_terminator c) cs)"
  by pat_completeness auto
termination
proof (relation "measure (\<lambda>(marker, opn, cls, bol, s). length s)")
  show "wf (measure (\<lambda>(marker, opn, cls, bol, s). length s))" by simp
next
  fix marker opn cls :: string and bol :: bool and c :: char and cs :: string
    and nl :: char and rest :: string
  assume a: "after_dot_star (drop (length marker) (c # cs)) = nl # rest"
  have "length (nl # rest) \<le> length (drop (length marker) (c # cs))"
    using length_after_dot_star [of "drop (length marker) (c # cs)"] a by simp
  then have "length rest < length (c # cs)" by simp
  then show "((marker, opn, cls, True, rest), (marker, opn, cls, bol, c # cs))
        \<in> measure (\<lambda>(marker, opn, cls, bol, s). length s)" by simp
next
  fix marker opn cls :: string and bol :: bool and c :: char and cs :: string
  show "((marker, opn, cls, is_line_terminator c, cs), (marker, opn, cls, bol, c # cs))
        \<in> measure (\<lambda>(marker, opn, cls, bol, s). length s)" by simp
qed

text \<open>
  A lazy \<^verbatim>\<open>(.*?)\<close> followed by the literal \<open>d\<close>: the shortest run of
  characters, none a line terminator, after which \<open>d\<close> stands. The result is the
  captured run and the input after \<open>d\<close>.
\<close>

fun lazy_until :: "string \<Rightarrow> string \<Rightarrow> (string \<times> string) option" where
  "lazy_until d [] = (if d = [] then Some ([], []) else None)"
| "lazy_until d (c # cs) =
     (if prefix d (c # cs) then Some ([], drop (length d) (c # cs))
      else if is_line_terminator c then None
      else (case lazy_until d cs of
              None \<Rightarrow> None
            | Some (cap, rest) \<Rightarrow> Some (c # cap, rest)))"

lemma lazy_until_length:
  "lazy_until d s = Some (cap, rest) \<Longrightarrow> length rest \<le> length s"
proof (induction s arbitrary: cap rest)
  case Nil
  then show ?case by (simp split: if_splits)
next
  case (Cons c cs)
  show ?case
  proof (cases "prefix d (c # cs)")
    case True
    then show ?thesis using Cons.prems by auto
  next
    case False
    then obtain cap' where "lazy_until d cs = Some (cap', rest)"
      using Cons.prems by (auto split: if_splits option.splits)
    from Cons.IH [OF this] show ?thesis by simp
  qed
qed

text \<open>
  \<^verbatim>\<open>/\*\*(.*?)\*\*/g\<close> and \<^verbatim>\<open>/\*(.*?)\*/g\<close>: an opening delimiter \<open>d\<close>,
  a lazy capture, the closing delimiter. Where the delimiter opens but does not close
  on the line, the character is copied and the scan goes on one character later.
\<close>

function delim_replace :: "string \<Rightarrow> string \<Rightarrow> string \<Rightarrow> string \<Rightarrow> string" where
  "delim_replace d opn cls [] = []"
| "delim_replace d opn cls (c # cs) =
     (if d \<noteq> [] \<and> prefix d (c # cs) then
        (case lazy_until d (drop (length d) (c # cs)) of
           Some (cap, rest) \<Rightarrow> opn @ cap @ cls @ delim_replace d opn cls rest
         | None \<Rightarrow> c # delim_replace d opn cls cs)
      else c # delim_replace d opn cls cs)"
  by pat_completeness auto
termination
proof (relation "measure (\<lambda>(d, opn, cls, s). length s)")
  show "wf (measure (\<lambda>(d, opn, cls, s). length s))" by simp
next
  fix d opn cls :: string and c :: char and cs :: string and x2 :: "string \<times> string"
    and cap rest :: string
  assume d: "d \<noteq> [] \<and> prefix d (c # cs)"
    and l: "lazy_until d (drop (length d) (c # cs)) = Some x2"
    and x: "(cap, rest) = x2"
  have "length rest \<le> length (drop (length d) (c # cs))"
    using lazy_until_length [of d "drop (length d) (c # cs)" cap rest] l x by simp
  moreover have "0 < length d" using d by simp
  ultimately have "length rest < length (c # cs)"
    by (simp del: length_greater_0_conv)
  then show "((d, opn, cls, rest), (d, opn, cls, c # cs))
        \<in> measure (\<lambda>(d, opn, cls, s). length s)"
    by simp
qed simp_all

text \<open>
  The inline code pattern: a backtick, one or more characters that are not backticks
  (line terminators included), a backtick.
\<close>

definition backtick :: char where
  "backtick = CHR 0x60"

function code_replace :: "string \<Rightarrow> string \<Rightarrow> string \<Rightarrow> string" where
  "code_replace opn cls [] = []"
| "code_replace opn cls (c # cs) =
     (if c = backtick \<and> takeWhile (\<lambda>x. x \<noteq> backtick) cs \<noteq> []
         \<and> dropWhile (\<lambda>x. x \<noteq> backtick) cs \<noteq> [] then
        opn @ takeWhile (\<lambda>x. x \<noteq> backtick) cs @ cls @
        code_replace opn cls (tl (dropWhile (\<lambda>x. x \<noteq> backtick) cs))
      else c # code_replace opn cls cs)"
  by pat_completeness auto
termination
  by (relation "measure (\<lambda>(opn, cls, s). length s)")
     (auto simp: length_dropWhile_le less_Suc_eq_le intro: le_trans [OF diff_le_self])

text \<open>\<^verbatim>\<open>/\n- (.*)/g\<close>: a newline, a dash, a space and the rest of that line.\<close>

function list_replace :: "string \<Rightarrow> string \<Rightarrow> string \<Rightarrow> string" where
  "list_replace opn cls [] = []"
| "list_replace opn cls (c # cs) =
     (if prefix ''\<newline>- '' (c # cs) then
        opn @ dot_star (drop 3 (c # cs)) @ cls @
        list_replace opn cls (after_dot_star (drop 3 (c # cs)))
      else c # list_replace opn cls cs)"
  by pat_completeness auto
termination
proof (relation "measure (\<lambda>(opn, cls, s). length s)")
  show "wf (measure (\<lambda>(opn, cls, s). length s))" by simp
next
  fix opn cls :: string and c :: char and cs :: string
  have "length (after_dot_star (drop 3 (c # cs))) \<le> length (drop 3 (c # cs))"
    by (rule length_after_dot_star)
  then have "length (after_dot_star (drop 3 (c # cs))) < length (c # cs)" by simp
  then show "((opn, cls, after_dot_star (drop 3 (c # cs))), (opn, cls, c # cs))
      \<in> measure (\<lambda>(opn, cls, s). length s)" by simp
qed simp

text \<open>\<^verbatim>\<open>/\n\n/g\<close>: two newlines become two line breaks.\<close>

fun break_replace :: "string \<Rightarrow> string" where
  "break_replace (a # b # cs) =
     (if a = CHR 0x0A \<and> b = CHR 0x0A then ''<br/><br/>'' @ break_replace cs
      else a # break_replace (b # cs))"
| "break_replace s = s"

text \<open>
  \<^verbatim>\<open>/\[(.*?)\]\((.*?)\)/g\<close>, tried after an opening bracket: the label grows
  lazily until a closing bracket and an opening parenthesis stand there and the
  address, lazy as well, finds its closing parenthesis. The result is label, address
  and the input after the match.
\<close>

fun link_match :: "string \<Rightarrow> (string \<times> string \<times> string) option" where
  "link_match [] = None"
| "link_match (c # cs) =
     (case (if prefix '']('' (c # cs) then lazy_until '')'' (drop 2 (c # cs)) else None) of
        Some (url, rest) \<Rightarrow> Some ([], url, rest)
      | None \<Rightarrow>
          (if is_line_terminator c then None
           else (case link_match cs of
                   None \<Rightarrow> None
                 | Some (label, url, rest) \<Rightarrow> Some (c # label, url, rest))))"

lemma link_match_length:
  "link_match s = Some (label, url, rest) \<Longrightarrow> length rest \<le> length s"
proof (induction s arbitrary: label)
  case Nil
  then show ?case by simp
next
  case (Cons c cs)
  show ?case
  proof (cases "if prefix '']('' (c # cs) then lazy_until '')'' (drop 2 (c # cs)) else None")
    case None
    then show ?thesis
      using Cons by (auto split: if_splits option.splits prod.splits)
  next
    case (Some a)
    then have "lazy_until '')'' (drop 2 (c # cs)) = Some (url, rest)"
      using Cons.prems by (auto split: if_splits)
    from lazy_until_length [OF this] show ?thesis by simp
  qed
qed

function link_replace :: "string \<Rightarrow> string" where
  "link_replace [] = []"
| "link_replace (c # cs) =
     (if c = CHR ''['' then
        (case link_match cs of
           Some (label, url, rest) \<Rightarrow>
             ''<a class=\"underline hover:no-underline\" href=\"'' @ url @
             ''\" target=\"_blank\" rel=\"noreferrer\">'' @ label @ ''</a>'' @
             link_replace rest
         | None \<Rightarrow> c # link_replace cs)
      else c # link_replace cs)"
  by pat_completeness auto
termination
proof (relation "measure length")
  show "wf (measure (length :: string \<Rightarrow> nat))" by simp
next
  fix c :: char and cs :: string and x2 :: "string \<times> string \<times> string"
    and label :: string and y :: "string \<times> string" and url rest :: string
  assume "link_match cs = Some x2" "(label, y) = x2" "(url, rest) = y"
  then have "link_match cs = Some (label, url, rest)" by simp
  from link_match_length [OF this]
  show "(rest, c # cs) \<in> measure length" by simp
qed simp_all

text \<open>The stages of the chain, in the order of the source.\<close>

definition md_h3 :: "string \<Rightarrow> string" where
  "md_h3 = line_start_replace ''### ''
     ''<h3 class=\"text-lg font-semibold mt-6 mb-2\">'' ''</h3>'' True"

definition md_h2 :: "string \<Rightarrow> string" where
  "md_h2 = line_start_replace ''## ''
     ''<h2 class=\"text-xl font-semibold mt-8 mb-3\">'' ''</h2>'' True"

definition md_h1 :: "string \<Rightarrow> string" where
  "md_h1 = line_start_replace ''# ''
     ''<h1 class=\"text-2xl font-bold mt-8 mb-4\">'' ''</h1>'' True"

definition md_quote :: "string \<Rightarrow> string" where
  "md_quote = line_start_replace ''> ''
     ''<blockquote class=\"border-l pl-4 italic opacity-80 my-4\">'' ''</blockquote>'' True"

definition md_bold :: "string \<Rightarrow> string" where
  "md_bold = delim_replace ''**'' ''<strong>'' ''</strong>''"

definition md_italic :: "string \<Rightarrow> string" where
  "md_italic = delim_replace ''*'' ''<em>'' ''</em>''"

definition md_code :: "string \<Rightarrow> string" where
  "md_code = code_replace
     ''<code class=\"px-1 py-0.5 text-sm rounded bg-neutral-800/40\">'' ''</code>''"

definition md_list :: "string \<Rightarrow> string" where
  "md_list = list_replace ''<ul class=\"list-disc ml-6 my-2\"><li>'' ''</li></ul>''"

definition Markdown :: "string \<Rightarrow> string" where
  "Markdown text =
     link_replace (break_replace (md_list (md_code (md_italic (md_bold
       (md_quote (md_h1 (md_h2 (md_h3 text)))))))))"

section \<open>Value domain calculator\<close>

text \<open>
  \<^verbatim>\<open>
  function computeMvrvDomain(arr) {
    if (!Array.isArray(arr) || arr.length === 0) return [0, 4];
    let mn = Infinity, mx = -Infinity;
    for (const p of arr) {
      if (typeof p.mvrv === 'number') {
        if (p.mvrv < mn) mn = p.mvrv;
        if (p.mvrv > mx) mx = p.mvrv;
      }
    }
    if (!isFinite(mn) || !isFinite(mx)) return [0, 4];
    const pad = Math.max(0.05, (mx - mn) * 0.1);
    return [Math.max(0, Math.floor((mn - pad) * 10) / 10), Math.ceil((mx + pad) * 10) / 10];
  }
  \<close>
  The loop threads the running minimum and maximum; the result is the pair of the
  two elements of the returned array. The literals \<^verbatim>\<open>0.05\<close> and
  \<^verbatim>\<open>0.1\<close> are the doubles nearest to \<open>1/20\<close> and \<open>1/10\<close>.
\<close>

fun domain_loop :: "point list \<Rightarrow> jsnum \<Rightarrow> jsnum \<Rightarrow> jsnum \<times> jsnum" where
  "domain_loop [] mn mx = (mn, mx)"
| "domain_loop (p # ps) mn mx =
     (case mvrv p of
        Num x \<Rightarrow> domain_loop ps (if js_lt x mn then x else mn) (if js_gt x mx then x else mx)
      | _ \<Rightarrow> domain_loop ps mn mx)"

definition computeMvrvDomain :: "point list option \<Rightarrow> jsnum \<times> jsnum" where
  "computeMvrvDomain arr =
     (case arr of
        None \<Rightarrow> (Fin 0, Fin 4)
      | Some ps \<Rightarrow>
          if length ps = 0 then (Fin 0, Fin 4)
          else (case domain_loop ps PosInf NegInf of
                  (mn, mx) \<Rightarrow>
                    if \<not> isFinite mn \<or> \<not> isFinite mx then (Fin 0, Fin 4)
                    else (let pad = js_max (fl (5 / 100)) (js_mul (js_sub mx mn) (fl (1 / 10)))
                          in (js_max (Fin 0)
                                (js_div (js_floor (js_mul (js_sub mn pad) (Fin 10))) (Fin 10)),
                              js_div (js_ceil (js_mul (js_add mx pad) (Fin 10))) (Fin 10)))))"

section \<open>Alert rule engine\<close>

text \<open>
  \<^verbatim>\<open>
  function buildAlerts(state) {
    const out = [];
    const mv = state && state.mvrv && typeof state.mvrv.current === 'number' ? state.mvrv.current : null;
    const fg = state && typeof state.fngValue === 'number' ? state.fngValue : null;
    if (typeof mv === 'number') {
      if (mv >= 3.0) out.push({ level: 'HIGH', title: 'MVRV Overbought', desc: `MVRV at ${mv.toFixed(2)} (>= 3.0).` });
      else if (mv >= 2.5) out.push({ level: 'MEDIUM', title: 'MVRV Elevated', desc: `MVRV at ${mv.toFixed(2)} (>= 2.5).` });
    }
    if (typeof fg === 'number' && fg >= 70) out.push({ level: 'MEDIUM', title: 'Extreme Greed', desc: `Fear & Greed = ${fg}.` });
    return out;
  }
  \<close>
\<close>

definition snapshot_mv :: "dash_state option \<Rightarrow> jsval" where
  "snapshot_mv state =
     (case state of
        None \<Rightarrow> Null
      | Some s \<Rightarrow>
          (case dash_state.mvrv s of
             None \<Rightarrow> Null
           | Some m \<Rightarrow> (case current m of Num x \<Rightarrow> Num x | _ \<Rightarrow> Null)))"

definition snapshot_fg :: "dash_state option \<Rightarrow> jsval" where
  "snapshot_fg state =
     (case state of
        None \<Rightarrow> Null
      | Some s \<Rightarrow> (case fngValue s of Num y \<Rightarrow> Num y | _ \<Rightarrow> Null))"

definition mvrv_alerts :: "jsval \<Rightarrow> alert list" where
  "mvrv_alerts mv =
     (case mv of
        Num x \<Rightarrow>
          if js_ge x (Fin 3) then
            [\<lparr>level = HIGH, alert.title = ''MVRV Overbought'',
              desc = [Lit ''MVRV at '', ToFixed2 x, Lit '' (>= 3.0).'']\<rparr>]
          else if js_ge x (Fin (5 / 2)) then
            [\<lparr>level = MEDIUM, alert.title = ''MVRV Elevated'',
              desc = [Lit ''MVRV at '', ToFixed2 x, Lit '' (>= 2.5).'']\<rparr>]
          else []
      | _ \<Rightarrow> [])"

definition fng_alerts :: "jsval \<Rightarrow> alert list" where
  "fng_alerts fg =
     (case fg of
        Num y \<Rightarrow>
          if js_ge y (Fin 70) then
            [\<lparr>level = MEDIUM, alert.title = ''Extreme Greed'',
              desc = [Lit ''Fear & Greed = '', ToString y, Lit ''.'']\<rparr>]
          else []
      | _ \<Rightarrow> [])"

definition buildAlerts :: "dash_state option \<Rightarrow> alert list" where
  "buildAlerts state =
     (let mv = snapshot_mv state;
          fg = snapshot_fg state
      in mvrv_alerts mv @ fng_alerts fg)"

section \<open>Time-series merger\<close>

text \<open>
  \<^verbatim>\<open>
  function mergeSeries(priceArr, mvrvArr) {
    const out = [];
    let i = 0, j = 0;
    while (i < (priceArr?.length || 0) || j < (mvrvArr?.length || 0)) {
      const p = priceArr[i];
      const m = mvrvArr[j];
      if (p && m) {
        const tp = Number(p.t);
        const tm = Number(m.t);
        if (Math.abs(tp - tm) <= 12 * 60 * 60 * 1000) {
          out.push({ t: tp, price: p.price, mvrv: m.mvrv });
          i++; j++;
        } else if (tp < tm) {
          out.push({ t: tp, price: p.price, mvrv: undefined });
          i++;
        } else {
          out.push({ t: tm, price: undefined, mvrv: m.mvrv });
          j++;
        }
      } else if (p) {
        out.push({ t: Number(p.t), price: p.price, mvrv: undefined });
        i++;
      } else if (m) {
        out.push({ t: Number(m.t), price: undefined, mvrv: m.mvrv });
        j++;
      } else {
        break;
      }
    }
    return out;
  }
  \<close>
  The loop is a recursion on the state \<open>(i, j, out)\<close>; it returns the final state,
  of which \<^verbatim>\<open>mergeSeries\<close> keeps \<open>out\<close>. The elements of the arrays are
  objects, so each of \<open>p\<close> and \<open>m\<close> is falsy exactly when its index is out of range.
\<close>

definition halfDay :: int where
  "halfDay = 12 * 60 * 60 * 1000"

function merge_loop ::
  "point list option \<Rightarrow> point list option \<Rightarrow> nat \<Rightarrow> nat \<Rightarrow> point list
     \<Rightarrow> error + (nat \<times> nat \<times> point list)" where
  "merge_loop priceArr mvrvArr i j out =
     (if i < arr_length priceArr \<or> j < arr_length mvrvArr then
        (case arr_index priceArr i of
           Inl e \<Rightarrow> Inl e
         | Inr None \<Rightarrow>
             (case arr_index mvrvArr j of
                Inl e \<Rightarrow> Inl e
              | Inr None \<Rightarrow> Inr (i, j, out)
              | Inr (Some m) \<Rightarrow>
                  merge_loop priceArr mvrvArr i (j + 1)
                    (out @ [\<lparr>t = t m, price = Undefined, mvrv = mvrv m\<rparr>]))
         | Inr (Some p) \<Rightarrow>
             (case arr_index mvrvArr j of
                Inl e \<Rightarrow> Inl e
              | Inr None \<Rightarrow>
                  merge_loop priceArr mvrvArr (i + 1) j
                    (out @ [\<lparr>t = t p, price = price p, mvrv = Undefined\<rparr>])
              | Inr (Some m) \<Rightarrow>
                  (if \<bar>t p - t m\<bar> \<le> halfDay then
                     merge_loop priceArr mvrvArr (i + 1) (j + 1)
                       (out @ [\<lparr>t = t p, price = price p, mvrv = mvrv m\<rparr>])
                   else if t p < t m then
                     merge_loop priceArr mvrvArr (i + 1) j
                       (out @ [\<lparr>t = t p, price = price p, mvrv = Undefined\<rparr>])
                   else
                     merge_loop priceArr mvrvArr i (j + 1)
                       (out @ [\<lparr>t = t m, price = Undefined, mvrv = mvrv m\<rparr>]))))
      else Inr (i, j, out))"
  by pat_completeness auto
termination
  by (relation "measure (\<lambda>(pa, ma, i, j, out). (arr_length pa - i) + (arr_length ma - j))")
     (auto simp: arr_index_def arr_length_def split: option.splits if_splits)

declare merge_loop.simps [simp del]

definition mergeSeries :: "point list option \<Rightarrow> point list option \<Rightarrow> error + point list" where
  "mergeSeries priceArr mvrvArr =
     (case merge_loop priceArr mvrvArr 0 0 [] of
        Inl e \<Rightarrow> Inl e
      | Inr (i, j, out) \<Rightarrow> Inr out)"

text \<open>
  The walk in the words of the specification, on the two sequences themselves: compare
  the heads; within twelve hours emit one point with both values and advance both;
  otherwise emit the earlier head alone and advance it; drain what remains of one
  sequence when the other is exhausted. The specification does not say which
  timestamp the joined point carries; the walk takes the one of the price head.
\<close>

fun merge_walk :: "point list \<Rightarrow> point list \<Rightarrow> point list" where
  "merge_walk [] [] = []"
| "merge_walk (p # ps) [] =
     \<lparr>t = t p, price = price p, mvrv = Undefined\<rparr> # merge_walk ps []"
| "merge_walk [] (m # ms) =
     \<lparr>t = t m, price = Undefined, mvrv = mvrv m\<rparr> # merge_walk [] ms"
| "merge_walk (p # ps) (m # ms) =
     (if \<bar>t p - t m\<bar> \<le> 43200000 then
        \<lparr>t = t p, price = price p, mvrv = mvrv m\<rparr> # merge_walk ps ms
      else if t p < t m then
        \<lparr>t = t p, price = price p, mvrv = Undefined\<rparr> # merge_walk ps (m # ms)
      else
        \<lparr>t = t m, price = Undefined, mvrv = mvrv m\<rparr> # merge_walk (p # ps) ms)"

section \<open>Axis tick generator\<close>

text \<open>
  \<^verbatim>\<open>
  function compute10DayTicks(series) {
    if (!Array.isArray(series) || !series.length) return [];
    const start = Number(series[0].t);
    const end = Number(series[series.length - 1].t);
    const oneDay = 24 * 60 * 60 * 1000;
    const step = 10 * oneDay;
    const alignedStart = start - (start % oneDay);
    const ticks = [];
    for (let t = alignedStart; t <= end + 1; t += step) ticks.push(t);
    return ticks;
  }
  \<close>
  The timestamps are integers held by doubles, and so is every value computed here:
  a difference or a sum of two such integers is rounded to 53 significant bits, the
  remainder is exact. Beyond \<open>2 ^ 53\<close> the addition of \<open>step\<close> may round back to
  the value it started from; the loop is therefore a partial function, and \<open>None\<close>
  says that it does not return. (Integers of \<open>2 ^ 1024\<close> and more, which no double
  holds, are outside the model.)
\<close>

function nbits :: "int \<Rightarrow> nat" where
  "nbits a = (if a \<le> 0 then 0 else Suc (nbits (a div 2)))"
  by pat_completeness auto
termination
  by (relation "measure nat") auto

declare nbits.simps [simp del]

definition round53 :: "int \<Rightarrow> int" where
  "round53 x =
     (if \<bar>x\<bar> < 2 ^ 53 then x
      else (let e = nbits \<bar>x\<bar> - 53;
                q = \<bar>x\<bar> div 2 ^ e;
                r = \<bar>x\<bar> mod 2 ^ e;
                h = 2 ^ (e - 1)
            in sgn x * ((if h < r \<or> (r = h \<and> odd q) then q + 1 else q) * 2 ^ e)))"

definition oneDay :: int where
  "oneDay = 24 * 60 * 60 * 1000"

definition step :: int where
  "step = 10 * oneDay"

partial_function (option) ticks_loop :: "int \<Rightarrow> int \<Rightarrow> int list \<Rightarrow> int list option" where
  "ticks_loop tk endT ticks =
     (if tk \<le> round53 (endT + 1) then ticks_loop (round53 (tk + step)) endT (ticks @ [tk])
      else Some ticks)"

definition compute10DayTicks :: "point list option \<Rightarrow> int list option" where
  "compute10DayTicks series =
     (case series of
        None \<Rightarrow> Some []
      | Some ps \<Rightarrow>
          if length ps = 0 then Some []
          else (let start = t (ps ! 0);
                    endT = t (ps ! (length ps - 1));
                    alignedStart = round53 (start - js_rem start oneDay)
                in ticks_loop alignedStart endT []))"

chapter \<open>Properties\<close>

section \<open>Time-series merger\<close>

text \<open>
  The loop of the source, started at any pair of indices within the two arrays, ends
  with both indices at the ends of their arrays and has appended to \<open>out\<close> what the
  walk of the specification makes of the two remaining suffixes.
\<close>

lemma merge_loop_walk:
  "i \<le> length ps \<Longrightarrow> j \<le> length ms \<Longrightarrow>
   merge_loop (Some ps) (Some ms) i j out =
     Inr (length ps, length ms, out @ merge_walk (drop i ps) (drop j ms))"
proof (induction "(length ps - i) + (length ms - j)" arbitrary: i j out rule: less_induct)
  case less
  consider (both) "i < length ps" "j < length ms"
    | (ponly) "i < length ps" "j = length ms"
    | (monly) "i = length ps" "j < length ms"
    | (exhausted) "i = length ps" "j = length ms"
    using less.prems by linarith
  then show ?case
  proof cases
    case both
    have dp: "drop i ps = ps ! i # drop (Suc i) ps"
      using both by (simp add: Cons_nth_drop_Suc)
    have dm: "drop j ms = ms ! j # drop (Suc j) ms"
      using both by (simp add: Cons_nth_drop_Suc)
    show ?thesis
      using both less.hyps [of "Suc i" "Suc j"] less.hyps [of "Suc i" j] less.hyps [of i "Suc j"]
      by (subst merge_loop.simps) (simp add: arr_index_def arr_length_def dp dm halfDay_def)
  next
    case ponly
    have dp: "drop i ps = ps ! i # drop (Suc i) ps"
      using ponly by (simp add: Cons_nth_drop_Suc)
    show ?thesis
      using ponly less.hyps [of "Suc i" j]
      by (subst merge_loop.simps) (simp add: arr_index_def arr_length_def dp)
  next
    case monly
    have dm: "drop j ms = ms ! j # drop (Suc j) ms"
      using monly by (simp add: Cons_nth_drop_Suc)
    show ?thesis
      using monly less.hyps [of i "Suc j"]
      by (subst merge_loop.simps) (simp add: arr_index_def arr_length_def dm)
  next
    case exhausted
    then show ?thesis
      by (subst merge_loop.simps) (simp add: arr_length_def)
  qed
qed

lemma mergeSeries_walk: "mergeSeries (Some ps) (Some ms) = Inr (merge_walk ps ms)"
  by (simp add: mergeSeries_def merge_loop_walk)

text \<open>
  When exactly one of the two arrays is absent and the other is not empty, the guard
  of the loop holds and the first indexing raises.
\<close>

lemma mergeSeries_absent_price_raises:
  "ms \<noteq> [] \<Longrightarrow> mergeSeries None (Some ms) = Inl TypeError"
  by (subst mergeSeries_def, subst merge_loop.simps)
     (simp add: arr_length_def arr_index_def)

lemma mergeSeries_absent_mvrv_raises:
  "ps \<noteq> [] \<Longrightarrow> mergeSeries (Some ps) None = Inl TypeError"
  by (subst mergeSeries_def, subst merge_loop.simps)
     (simp add: arr_length_def arr_index_def split: option.splits)

lemma mergeSeries_both_absent: "mergeSeries None None = Inr []"
  by (subst mergeSeries_def, subst merge_loop.simps) (simp add: arr_length_def)

text \<open>
  \<^bold>\<open>C1.\<close> For every pair of input sequences (ascending or not), the merger
  follows the two-pointer walk of the specification: while both sequences have a head,
  heads within 43200000 ms give one point with both values and advance both pointers,
  otherwise the head with the earlier timestamp is emitted alone and only its pointer
  advances; once one sequence is exhausted the other is drained, one point per
  element with the other field undefined. The loop stops with both indices at the
  ends of their arrays, that is, exactly when both inputs are exhausted.
\<close>

theorem mergeSeries_follows_walk:
  "merge_loop (Some ps) (Some ms) 0 0 [] = Inr (length ps, length ms, merge_walk ps ms)
   \<and> mergeSeries (Some ps) (Some ms) = Inr (merge_walk ps ms)"
  by (simp add: mergeSeries_def merge_loop_walk)

theorem mergeSeries_follows_walk_witness:
  "mergeSeries
     (Some [\<lparr>t = 0, price = Num (Fin 100), mvrv = Undefined\<rparr>,
            \<lparr>t = 86400000, price = Num (Fin 101), mvrv = Undefined\<rparr>])
     (Some [\<lparr>t = 3600000, price = Undefined, mvrv = Num (Fin 2)\<rparr>,
            \<lparr>t = 172800000, price = Undefined, mvrv = Num (Fin 3)\<rparr>])
   = Inr [\<lparr>t = 0, price = Num (Fin 100), mvrv = Num (Fin 2)\<rparr>,
          \<lparr>t = 86400000, price = Num (Fin 101), mvrv = Undefined\<rparr>,
          \<lparr>t = 172800000, price = Undefined, mvrv = Num (Fin 3)\<rparr>]"
  using mergeSeries_follows_walk
    [of "[\<lparr>t = 0, price = Num (Fin 100), mvrv = Undefined\<rparr>,
          \<lparr>t = 86400000, price = Num (Fin 101), mvrv = Undefined\<rparr>]"
        "[\<lparr>t = 3600000, price = Undefined, mvrv = Num (Fin 2)\<rparr>,
          \<lparr>t = 172800000, price = Undefined, mvrv = Num (Fin 3)\<rparr>]"]
  by simp

text \<open>Every timestamp of the output is bounded below by a common bound of the inputs.\<close>

lemma merge_walk_lower_bound:
  "\<forall>p \<in> set ps. lb \<le> t p \<Longrightarrow> \<forall>m \<in> set ms. lb \<le> t m \<Longrightarrow>
   \<forall>x \<in> set (merge_walk ps ms). lb \<le> t x"
  by (induction ps ms rule: merge_walk.induct) auto

lemma merge_walk_sorted:
  "sorted (map t ps) \<Longrightarrow> sorted_wrt (\<lambda>a b. t a + halfDay \<le> t b) ms \<Longrightarrow>
   sorted (map t (merge_walk ps ms))"
proof (induction ps ms rule: merge_walk.induct)
  case 1
  then show ?case by simp
next
  case (2 p ps)
  have "\<forall>x \<in> set (merge_walk ps []). t p \<le> t x"
    using 2 by (intro merge_walk_lower_bound) auto
  then show ?case using 2 by auto
next
  case (3 m ms)
  have "\<forall>x \<in> set (merge_walk [] ms). t m \<le> t x"
    using 3 by (intro merge_walk_lower_bound) (auto simp: halfDay_def)
  then show ?case using 3 by auto
next
  case (4 p ps m ms)
  show ?case
  proof (cases "\<bar>t p - t m\<bar> \<le> 43200000")
    case True
    have "\<forall>x \<in> set (merge_walk ps ms). t p \<le> t x"
      using 4 True by (intro merge_walk_lower_bound) (auto simp: halfDay_def)
    then show ?thesis using 4 True by auto
  next
    case False
    show ?thesis
    proof (cases "t p < t m")
      case True
      have "\<forall>x \<in> set (merge_walk ps (m # ms)). t p \<le> t x"
        using 4 True by (intro merge_walk_lower_bound) (auto simp: halfDay_def)
      then show ?thesis using 4 True False by auto
    next
      case ge: False
      have "\<forall>x \<in> set (merge_walk (p # ps) ms). t m \<le> t x"
        using 4 ge False by (intro merge_walk_lower_bound) (auto simp: halfDay_def)
      then show ?thesis using 4 ge False by auto
    qed
  qed
qed

lemma spaced_pairwise:
  assumes "successively (\<lambda>a b. t a + halfDay \<le> t b) (ms :: point list)"
  shows "sorted_wrt (\<lambda>a b. t a + halfDay \<le> t b) ms"
proof -
  have "transp (\<lambda>a b :: point. t a + halfDay \<le> t b)"
    by (rule transpI) (simp add: halfDay_def)
  from successively_conv_sorted_wrt [OF this, of ms] assms
  show ?thesis by simp
qed

text \<open>
  \<^bold>\<open>C2.\<close> As stated (ascending inputs give an ascending output) the claim fails:
  a joined point carries the timestamp of the price head, which may lie up to twelve
  hours after the mvrv head, and the next mvrv point may fall in between. With the
  price point at 10 h and the mvrv points at 0 h and 1 h the output timestamps are
  10 h, 1 h.
\<close>

theorem mergeSeries_not_ascending_counterexample:
  "sorted (map t [\<lparr>t = 36000000, price = Num (Fin 100), mvrv = Undefined\<rparr>])
   \<and> sorted (map t [\<lparr>t = 0, price = Undefined, mvrv = Num (Fin 2)\<rparr>,
                     \<lparr>t = 3600000, price = Undefined, mvrv = Num (Fin 3)\<rparr>])
   \<and> mergeSeries
        (Some [\<lparr>t = 36000000, price = Num (Fin 100), mvrv = Undefined\<rparr>])
        (Some [\<lparr>t = 0, price = Undefined, mvrv = Num (Fin 2)\<rparr>,
               \<lparr>t = 3600000, price = Undefined, mvrv = Num (Fin 3)\<rparr>])
      = Inr [\<lparr>t = 36000000, price = Num (Fin 100), mvrv = Num (Fin 2)\<rparr>,
             \<lparr>t = 3600000, price = Undefined, mvrv = Num (Fin 3)\<rparr>]
   \<and> \<not> sorted (map t [\<lparr>t = 36000000, price = Num (Fin 100), mvrv = Num (Fin 2)\<rparr>,
                        \<lparr>t = 3600000, price = Undefined, mvrv = Num (Fin 3)\<rparr>])"
  by (simp add: mergeSeries_walk)

text \<open>
  \<^bold>\<open>C2, amended.\<close> If both inputs are ascending by timestamp and every mvrv
  point is at least twelve hours after its predecessor (as in a daily series), the
  merger returns a sequence whose timestamps are ascending.
\<close>

theorem mergeSeries_ascending_when_spaced:
  assumes "sorted (map t ps)" and "sorted (map t ms)"
    and "successively (\<lambda>a b. t a + 43200000 \<le> t b) ms"
  shows "\<exists>out. mergeSeries (Some ps) (Some ms) = Inr out \<and> sorted (map t out)"
proof -
  have "sorted_wrt (\<lambda>a b. t a + halfDay \<le> t b) ms"
    using assms(3) by (intro spaced_pairwise) (simp add: halfDay_def)
  then have "sorted (map t (merge_walk ps ms))"
    using assms(1) by (rule merge_walk_sorted [rotated])
  then show ?thesis by (simp add: mergeSeries_walk)
qed

theorem mergeSeries_ascending_when_spaced_witness:
  "\<exists>out. mergeSeries
     (Some [\<lparr>t = 0, price = Num (Fin 100), mvrv = Undefined\<rparr>,
            \<lparr>t = 86400000, price = Num (Fin 101), mvrv = Undefined\<rparr>])
     (Some [\<lparr>t = 3600000, price = Undefined, mvrv = Num (Fin 2)\<rparr>,
            \<lparr>t = 172800000, price = Undefined, mvrv = Num (Fin 3)\<rparr>]) = Inr out
     \<and> sorted (map t out)"
  using mergeSeries_ascending_when_spaced
    [of "[\<lparr>t = 0, price = Num (Fin 100), mvrv = Undefined\<rparr>,
          \<lparr>t = 86400000, price = Num (Fin 101), mvrv = Undefined\<rparr>]"
        "[\<lparr>t = 3600000, price = Undefined, mvrv = Num (Fin 2)\<rparr>,
          \<lparr>t = 172800000, price = Undefined, mvrv = Num (Fin 3)\<rparr>]"]
  by simp

text \<open>
  \<^bold>\<open>C10.\<close> Whenever the loop stands at two heads within the twelve-hour window,
  the point it appends carries both values and the timestamp of the price head, not
  that of the mvrv head.
\<close>

theorem merged_point_takes_price_timestamp:
  assumes "i < length ps" and "j < length ms"
    and "\<bar>t (ps ! i) - t (ms ! j)\<bar> \<le> 43200000"
  shows "merge_loop (Some ps) (Some ms) i j out =
           Inr (length ps, length ms,
                out @ \<lparr>t = t (ps ! i), price = price (ps ! i), mvrv = mvrv (ms ! j)\<rparr>
                      # merge_walk (drop (Suc i) ps) (drop (Suc j) ms))"
proof -
  have "merge_loop (Some ps) (Some ms) i j out =
           merge_loop (Some ps) (Some ms) (i + 1) (j + 1)
             (out @ [\<lparr>t = t (ps ! i), price = price (ps ! i), mvrv = mvrv (ms ! j)\<rparr>])"
    using assms
    by (subst merge_loop.simps) (simp add: arr_index_def arr_length_def halfDay_def)
  also have "\<dots> = Inr (length ps, length ms,
            (out @ [\<lparr>t = t (ps ! i), price = price (ps ! i), mvrv = mvrv (ms ! j)\<rparr>])
            @ merge_walk (drop (i + 1) ps) (drop (j + 1) ms))"
    using assms by (intro merge_loop_walk) simp_all
  finally show ?thesis by simp
qed

theorem merged_point_takes_price_timestamp_witness:
  "merge_loop
     (Some [\<lparr>t = 36000000, price = Num (Fin 100), mvrv = Undefined\<rparr>])
     (Some [\<lparr>t = 0, price = Undefined, mvrv = Num (Fin 2)\<rparr>]) 0 0 []
   = Inr (1, 1, [\<lparr>t = 36000000, price = Num (Fin 100), mvrv = Num (Fin 2)\<rparr>])"
  using merged_point_takes_price_timestamp
    [of 0 "[\<lparr>t = 36000000, price = Num (Fin 100), mvrv = Undefined\<rparr>]"
        0 "[\<lparr>t = 0, price = Undefined, mvrv = Num (Fin 2)\<rparr>]" "[]"]
  by simp

section \<open>Axis tick generator\<close>

text \<open>
  Integers of magnitude up to \<open>2 ^ 53\<close> are doubles, so sums and differences in that
  range are exact.
\<close>

lemma step_pos: "0 < step"
  by (simp add: step_def oneDay_def)

lemma nbits_two_pow_53: "nbits 9007199254740992 = 54"
  by (simp add: nbits.simps)

lemma round53_exact: "\<bar>x\<bar> \<le> 2 ^ 53 \<Longrightarrow> round53 x = x"
proof (cases "\<bar>x\<bar> < 2 ^ 53")
  case True
  then show ?thesis by (simp add: round53_def)
next
  case False
  assume "\<bar>x\<bar> \<le> 2 ^ 53"
  with False have "\<bar>x\<bar> = 9007199254740992" by simp
  then have "x = 9007199254740992 \<or> x = - 9007199254740992" by linarith
  then show ?thesis
    by (auto simp: round53_def nbits_two_pow_53)
qed


text \<open>
  Within that range the loop returns, with the arithmetic progression from its start
  value with stride \<open>step\<close>, as long as the value is at most \<open>endT + 1\<close>.
\<close>

lemma ticks_count_step:
  assumes "tk \<le> endT + 1"
  shows "nat ((endT + 1 - tk) div step) + 1 =
         Suc (if tk + step \<le> endT + 1 then nat ((endT + 1 - (tk + step)) div step) + 1 else 0)"
proof (cases "tk + step \<le> endT + 1")
  case True
  have "(endT + 1 - tk) div step = (endT + 1 - (tk + step)) div step + 1"
    using step_pos div_add_self2 [of step "endT + 1 - (tk + step)"]
    by (simp add: algebra_simps)
  moreover have "0 \<le> (endT + 1 - (tk + step)) div step"
    using True step_pos by (simp add: pos_imp_zdiv_nonneg_iff)
  ultimately show ?thesis using True by simp
next
  case False
  then have "(endT + 1 - tk) div step = 0"
    using assms step_pos by (simp add: div_pos_pos_trivial)
  then show ?thesis using False by simp
qed

lemma ticks_loop_progression:
  assumes "0 \<le> tk" and "0 \<le> endT" and "endT + step < 2 ^ 53"
  shows "ticks_loop tk endT acc =
     Some (acc @ map (\<lambda>k. tk + int k * step)
             [0..<(if tk \<le> endT + 1 then nat ((endT + 1 - tk) div step) + 1 else 0)])"
  using assms(1)
proof (induction "nat (endT + 2 - tk)" arbitrary: tk acc rule: less_induct)
  case less
  have lim: "round53 (endT + 1) = endT + 1"
    using assms(2,3) step_pos by (intro round53_exact) (simp add: step_def oneDay_def)
  show ?case
  proof (cases "tk \<le> endT + 1")
    case True
    have nxt: "round53 (tk + step) = tk + step"
      using True less.prems assms(3) step_pos by (intro round53_exact) simp
    have "ticks_loop tk endT acc = ticks_loop (tk + step) endT (acc @ [tk])"
      using True by (subst ticks_loop.simps) (simp add: lim nxt)
    also have "\<dots> = Some ((acc @ [tk]) @ map (\<lambda>k. (tk + step) + int k * step)
        [0..<(if tk + step \<le> endT + 1 then nat ((endT + 1 - (tk + step)) div step) + 1 else 0)])"
      using True less.prems step_pos by (intro less.hyps) simp_all
    also have "\<dots> = Some (acc @ map (\<lambda>k. tk + int k * step)
        [0..<Suc (if tk + step \<le> endT + 1 then nat ((endT + 1 - (tk + step)) div step) + 1 else 0)])"
      by (simp only: map_upt_Suc) (simp add: algebra_simps)
    finally show ?thesis
      using True ticks_count_step [OF True] by simp
  next
    case False
    then show ?thesis by (subst ticks_loop.simps) (simp add: lim)
  qed
qed

lemma div_le_iff_int:
  assumes "0 < (c::int)"
  shows "(x \<le> d div c) = (x * c \<le> d)"
proof -
  have eq: "d div c * c + d mod c = d" by simp
  have r0: "0 \<le> d mod c" and r1: "d mod c < c" using assms by simp_all
  have up: "(d div c + 1) * c = d div c * c + c" by (simp add: algebra_simps)
  show ?thesis
  proof
    assume "x \<le> d div c"
    then have "x * c \<le> (d div c) * c"
      using assms by (simp add: mult_right_mono)
    then show "x * c \<le> d" using eq r0 by linarith
  next
    assume "x * c \<le> d"
    then have "x * c < (d div c + 1) * c" using eq r1 up by linarith
    then have "x < d div c + 1"
      using assms by (simp add: mult_less_cancel_right_pos)
    then show "x \<le> d div c" by simp
  qed
qed

lemma ticks_count_exact:
  assumes "a \<le> e"
  shows "(k < nat ((e - a) div step) + 1) = (a + int k * step \<le> e)"
proof -
  have q: "0 \<le> (e - a) div step"
    using assms step_pos by (simp add: pos_imp_zdiv_nonneg_iff)
  have "(int k \<le> (e - a) div step) = (int k * step \<le> e - a)"
    using step_pos by (rule div_le_iff_int)
  then show ?thesis using q by linarith
qed

lemma js_rem_nonneg: "0 \<le> a \<Longrightarrow> 0 < b \<Longrightarrow> js_rem a b = a mod b"
  by (cases "a = 0") (simp_all add: js_rem_def)

lemma sorted_hd_le_last:
  assumes "xs \<noteq> []" and "sorted (map f xs)"
  shows "f (hd xs) \<le> (f (last xs) :: int)"
proof (cases xs)
  case Nil
  with assms show ?thesis by simp
next
  case (Cons y ys)
  then show ?thesis using assms by (cases "ys = []") auto
qed


text \<open>
  Beyond the exact range the ticks are rounded: for the one-point series at
  \<open>10 ^ 22\<close> the only tick is a double that is not a multiple of a day. Where the
  spacing of the doubles exceeds twice the stride, \<^verbatim>\<open>t += step\<close> leaves \<open>t\<close>
  unchanged and the loop never leaves its condition: for the one-point series at
  \<open>2 ^ 84\<close> the call returns no value.
\<close>

lemma ticks_rounded_beyond_exact_range:
  "compute10DayTicks (Some [\<lparr>t = 10 ^ 22, price = Undefined, mvrv = Undefined\<rparr>])
     = Some [9999999999999934988288]"
  by (simp add: compute10DayTicks_def round53_def js_rem_def oneDay_def step_def nbits.simps
        ticks_loop.simps)

lemma round53_stuck_step: "round53 (19342813113834066795298816 + step) = 19342813113834066795298816"
  by (simp add: round53_def step_def oneDay_def nbits.simps)

lemma round53_stuck_end: "round53 (19342813113834066795298817) = 19342813113834066795298816"
  by (simp add: round53_def nbits.simps)

lemma ticks_loop_stuck_aux:
  assumes "ticks_loop tk endT acc = Some r"
  shows "\<not> (tk = 19342813113834066795298816 \<and> endT = 19342813113834066795298816)"
proof (rule ticks_loop.raw_induct
    [where P = "\<lambda>tk endT acc r. \<not> (tk = 19342813113834066795298816 \<and> endT = 19342813113834066795298816)",
      OF _ assms])
  fix f tk endT acc r
  assume ih: "\<And>tk endT acc r. f tk endT acc = Some r \<Longrightarrow>
      \<not> (tk = 19342813113834066795298816 \<and> endT = 19342813113834066795298816)"
    and unf: "(if tk \<le> round53 (endT + 1) then f (round53 (tk + step)) endT (acc @ [tk])
              else Some acc) = Some (r :: int list)"
  show "\<not> (tk = 19342813113834066795298816 \<and> endT = 19342813113834066795298816)"
  proof
    assume a: "tk = 19342813113834066795298816 \<and> endT = 19342813113834066795298816"
    with unf have "f 19342813113834066795298816 19342813113834066795298816
        (acc @ [19342813113834066795298816]) = Some r"
      by (simp add: round53_stuck_step round53_stuck_end)
    from ih [OF this] show False by simp
  qed
qed

lemma ticks_loop_stuck: "ticks_loop (19342813113834066795298816) (19342813113834066795298816) acc = None"
  using ticks_loop_stuck_aux [of "19342813113834066795298816" "19342813113834066795298816" acc] by (cases "ticks_loop (19342813113834066795298816) (19342813113834066795298816) acc") auto

lemma ticks_never_return:
  "compute10DayTicks (Some [\<lparr>t = 19342813113834066795298816, price = Num (Fin 100), mvrv = Undefined\<rparr>]) = None"
proof -
  have "round53 (19342813113834066795298816 - js_rem (19342813113834066795298816) oneDay) = 19342813113834066795298816"
    by (simp add: round53_def js_rem_def oneDay_def nbits.simps)
  then show ?thesis
    by (simp add: compute10DayTicks_def ticks_loop_stuck del: One_nat_def)
qed

text \<open>
  \<^bold>\<open>C7.\<close> As stated (for every non-empty time-ordered series the first tick is the
  first timestamp aligned down to a whole day, hence at most the first timestamp) the
  claim fails before the epoch: the remainder operator takes the sign of the dividend,
  so a negative start is aligned up. For the one-point series at \<open>-1\<close> the only tick
  is \<open>0\<close>.
\<close>

theorem ticks_counterexample_negative_start:
  "compute10DayTicks (Some [\<lparr>t = - 1, price = Num (Fin 100), mvrv = Undefined\<rparr>]) = Some [0]
   \<and> \<not> hd (the (compute10DayTicks (Some [\<lparr>t = - 1, price = Num (Fin 100), mvrv = Undefined\<rparr>])))
         \<le> t (hd [\<lparr>t = - 1, price = Num (Fin 100), mvrv = Undefined\<rparr>])"
  by (simp add: compute10DayTicks_def js_rem_def round53_def oneDay_def step_def ticks_loop.simps)

text \<open>
  \<^bold>\<open>C7, amended.\<close> For every non-empty time-ordered series whose first timestamp
  is not negative and whose last timestamp plus ten days is below \<open>2 ^ 53\<close> (the
  range in which the arithmetic on timestamps is exact), the generator returns, and
  returns exactly the ascending arithmetic progression that starts at the first
  timestamp aligned down to the whole-day boundary at or below it, has stride
  864000000 ms (ten days), and holds every such tick that is at most the last
  timestamp plus 1 ms and no other; there is at least one tick. For the empty series
  it returns the empty sequence.
\<close>

theorem ticks_progression_from_aligned_start:
  assumes "series \<noteq> []" and "sorted (map t series)" and "0 \<le> t (hd series)"
    and "t (last series) + 864000000 < 2 ^ 53"
  shows "compute10DayTicks (Some []) = Some []
     \<and> (let a = t (hd series) - t (hd series) mod 86400000 in
          a mod 86400000 = 0 \<and> a \<le> t (hd series) \<and> t (hd series) < a + 86400000
          \<and> (\<exists>n>0. compute10DayTicks (Some series) =
                      Some (map (\<lambda>k. a + int k * 864000000) [0..<n])
                \<and> (\<forall>k. (k < n) = (a + int k * 864000000 \<le> t (last series) + 1))))"
proof -
  define a where "a = t (hd series) - t (hd series) mod 86400000"
  define n where "n = nat ((t (last series) + 1 - a) div step) + 1"
  have s: "step = 864000000" by (simp add: step_def oneDay_def)
  have a1: "a mod 86400000 = 0" unfolding a_def by (simp add: minus_mod_eq_mult_div)
  have a2: "a \<le> t (hd series)" and a3: "t (hd series) < a + 86400000" and a0: "0 \<le> a"
    unfolding a_def using assms(3) by (simp_all add: zmod_le_nonneg_dividend)
  have le: "t (hd series) \<le> t (last series)"
    using assms(1,2) by (rule sorted_hd_le_last)
  have ae: "a \<le> t (last series) + 1" using a2 le by linarith
  have e0: "0 \<le> t (last series)" using assms(3) le by linarith
  have bound: "t (last series) + step < 2 ^ 53" using assms(4) by (simp add: s)
  have hd0: "series ! 0 = hd series" and lst: "series ! (length series - Suc 0) = last series"
    using assms(1) by (simp_all add: hd_conv_nth last_conv_nth)
  have ra: "round53 a = a"
    using a0 a2 le bound step_pos by (intro round53_exact) simp
  have "compute10DayTicks (Some series) = ticks_loop a (t (last series)) []"
    using assms(1,3) ra
    by (simp add: compute10DayTicks_def Let_def hd0 lst js_rem_nonneg oneDay_def a_def)
  also have "\<dots> = Some (map (\<lambda>k. a + int k * step) [0..<n])"
    using ae by (simp add: ticks_loop_progression [OF a0 e0 bound] n_def)
  finally have r: "compute10DayTicks (Some series) =
      Some (map (\<lambda>k. a + int k * 864000000) [0..<n])"
    by (simp add: s)
  have ex: "\<forall>k. (k < n) = (a + int k * 864000000 \<le> t (last series) + 1)"
    using ticks_count_exact [OF ae] by (simp add: n_def s)
  have "0 < n" by (simp add: n_def)
  with r ex have "\<exists>n>0. compute10DayTicks (Some series) =
                    Some (map (\<lambda>k. a + int k * 864000000) [0..<n])
                \<and> (\<forall>k. (k < n) = (a + int k * 864000000 \<le> t (last series) + 1))"
    by blast
  moreover have "compute10DayTicks (Some []) = Some []"
    by (simp add: compute10DayTicks_def)
  ultimately show ?thesis
    unfolding Let_def a_def [symmetric] using a1 a2 a3 by blast
qed

theorem ticks_progression_witness:
  "compute10DayTicks
     (Some [\<lparr>t = 100000000, price = Num (Fin 100), mvrv = Undefined\<rparr>,
            \<lparr>t = 1000000000, price = Num (Fin 101), mvrv = Undefined\<rparr>])
   = Some [86400000, 950400000]"
proof -
  let ?s = "[\<lparr>t = 100000000, price = Num (Fin 100), mvrv = Undefined\<rparr>,
             \<lparr>t = 1000000000, price = Num (Fin 101), mvrv = Undefined\<rparr>]"
  from ticks_progression_from_aligned_start [of ?s]
  obtain n where n: "compute10DayTicks (Some ?s) =
        Some (map (\<lambda>k. 86400000 + int k * 864000000) [0..<n])"
    and k: "\<forall>k. (k < n) = (86400000 + int k * 864000000 \<le> 1000000001)"
    by (auto simp: Let_def)
  from k have "1 < n" "\<not> 2 < n" by simp_all
  then have "n = 2" by simp
  with n show ?thesis by (simp add: numeral_2_eq_2)
qed

section \<open>Value domain calculator\<close>

text \<open>
  The documented default: an absent or empty sequence, and a sequence without a
  numeric field, give \<open>[0, 4]\<close>.
\<close>

lemma domain_loop_no_number:
  "\<forall>p \<in> set ps. \<forall>n. mvrv p \<noteq> Num n \<Longrightarrow> domain_loop ps mn mx = (mn, mx)"
  by (induction ps) (auto split: jsval.splits)

lemma computeMvrvDomain_default:
  "computeMvrvDomain None = (Fin 0, Fin 4)"
  "computeMvrvDomain (Some []) = (Fin 0, Fin 4)"
  "\<forall>p \<in> set arr. \<forall>n. mvrv p \<noteq> Num n \<Longrightarrow> computeMvrvDomain (Some arr) = (Fin 0, Fin 4)"
  by (simp_all add: computeMvrvDomain_def domain_loop_no_number isFinite_def)

text \<open>
  The two literals of the padding, as doubles, and the evaluation of the arithmetic
  on given numbers.
\<close>

lemmas fl_eval = fl_def binexp_def twop_def round_half_even_def Let_def
  expo_down.simps expo_up.simps

lemmas js_arith_eval = js_add_def js_sub_def js_mul_def js_div_def js_floor_def js_ceil_def
  js_max_def js_neg_def isFinite_def sign_of_def inf_of_sign_def js_gt_def

lemma fl_five_hundredths: "fl (5 / 100) = Fin (3602879701896397 / 72057594037927936)"
  by (simp add: fl_eval)

lemma fl_tenth: "fl (1 / 10) = Fin (3602879701896397 / 36028797018963968)"
  by (simp add: fl_eval)

text \<open>
  On the values 1 and 7 the result is \<open>[0.3, 7.6]\<close>, as doubles: the lower bound
  \<open>(1 - 0.6000000000000001) * 10\<close> is rounded below 4 before the floor is taken.
\<close>

lemma computeMvrvDomain_one_seven:
  "computeMvrvDomain (Some [\<lparr>t = 0, price = Undefined, mvrv = Num (Fin 1)\<rparr>,
                            \<lparr>t = 1, price = Undefined, mvrv = Num (Fin 7)\<rparr>])
   = (Fin (5404319552844595 / 18014398509481984), Fin (4278419646001971 / 562949953421312))"
  by (simp add: computeMvrvDomain_def js_arith_eval fl_five_hundredths fl_tenth fl_eval)

text \<open>
  \<^bold>\<open>C3.\<close> The claim (for every input sequence, negative values included, the result
  \<open>[lo, hi]\<close> satisfies \<open>lo \<le> hi\<close>) fails in the code: the lower bound is clamped
  at 0 by \<^verbatim>\<open>Math.max(0, ...)\<close> and the upper bound is not. For the one-point
  sequence with the value \<open>-1\<close> the padding is \<open>0.05\<close>, the lower bound is
  \<open>max(0, -1.1) = 0\<close> and the upper bound is \<open>ceil(-9.5) / 10\<close>, the double
  \<open>-0.9\<close>: the result is \<open>[0, -0.9]\<close>, whose upper bound is below its lower bound.
\<close>

theorem computeMvrvDomain_inverted_on_negative:
  "computeMvrvDomain (Some [\<lparr>t = 0, price = Undefined, mvrv = Num (Fin (- 1))\<rparr>])
     = (Fin 0, Fin (- 8106479329266893 / 9007199254740992))
   \<and> js_lt (snd (computeMvrvDomain (Some [\<lparr>t = 0, price = Undefined, mvrv = Num (Fin (- 1))\<rparr>])))
           (fst (computeMvrvDomain (Some [\<lparr>t = 0, price = Undefined, mvrv = Num (Fin (- 1))\<rparr>])))"
  by (simp add: computeMvrvDomain_def js_arith_eval fl_five_hundredths fl_tenth fl_eval)

theorem computeMvrvDomain_inverted_witness:
  "\<exists>lo hi. computeMvrvDomain (Some [\<lparr>t = 0, price = Undefined, mvrv = Num (Fin (- 1))\<rparr>]) = (lo, hi)
      \<and> js_lt hi lo"
  using computeMvrvDomain_inverted_on_negative by simp

section \<open>Alert rule engine\<close>

lemma mvrv_alerts_finite:
  "mvrv_alerts (Num (Fin x)) =
     (if 3 \<le> x then
        [\<lparr>level = HIGH, alert.title = ''MVRV Overbought'',
          desc = [Lit ''MVRV at '', ToFixed2 (Fin x), Lit '' (>= 3.0).'']\<rparr>]
      else if 5 / 2 \<le> x then
        [\<lparr>level = MEDIUM, alert.title = ''MVRV Elevated'',
          desc = [Lit ''MVRV at '', ToFixed2 (Fin x), Lit '' (>= 2.5).'']\<rparr>]
      else [])"
  by (simp add: mvrv_alerts_def js_ge_def not_less)

lemma fng_alerts_finite:
  "fng_alerts (Num (Fin y)) =
     (if 70 \<le> y then
        [\<lparr>level = MEDIUM, alert.title = ''Extreme Greed'',
          desc = [Lit ''Fear & Greed = '', ToString (Fin y), Lit ''.'']\<rparr>]
      else [])"
  by (simp add: fng_alerts_def js_ge_def not_less)

lemma alerts_unknown:
  "\<forall>n. v \<noteq> Num n \<Longrightarrow> mvrv_alerts v = [] \<and> fng_alerts v = []"
  by (cases v) (simp_all add: mvrv_alerts_def fng_alerts_def)

lemma snapshot_simps:
  "snapshot_mv None = Null"
  "snapshot_fg None = Null"
  "snapshot_mv (Some \<lparr>dash_state.mvrv = None, fngValue = fg\<rparr>) = Null"
  "snapshot_mv (Some \<lparr>dash_state.mvrv = Some \<lparr>current = Num n\<rparr>, fngValue = fg\<rparr>) = Num n"
  "\<forall>n. mv \<noteq> Num n \<Longrightarrow>
     snapshot_mv (Some \<lparr>dash_state.mvrv = Some \<lparr>current = mv\<rparr>, fngValue = fg\<rparr>) = Null"
  "snapshot_fg (Some \<lparr>dash_state.mvrv = m, fngValue = Num n\<rparr>) = Num n"
  "\<forall>n. fg \<noteq> Num n \<Longrightarrow> snapshot_fg (Some \<lparr>dash_state.mvrv = m, fngValue = fg\<rparr>) = Null"
  by (auto simp: snapshot_mv_def snapshot_fg_def split: jsval.splits)

lemma mvrv_alerts_not_finite:
  "mvrv_alerts (Num PosInf) =
     [\<lparr>level = HIGH, alert.title = ''MVRV Overbought'',
       desc = [Lit ''MVRV at '', ToFixed2 PosInf, Lit '' (>= 3.0).'']\<rparr>]"
  "mvrv_alerts (Num NegInf) = []"
  "mvrv_alerts (Num NaN) = []"
  by (simp_all add: mvrv_alerts_def js_ge_def)

lemma fng_alerts_not_finite:
  "fng_alerts (Num PosInf) =
     [\<lparr>level = MEDIUM, alert.title = ''Extreme Greed'',
       desc = [Lit ''Fear & Greed = '', ToString PosInf, Lit ''.'']\<rparr>]"
  "fng_alerts (Num NegInf) = []"
  "fng_alerts (Num NaN) = []"
  by (simp_all add: fng_alerts_def js_ge_def)

text \<open>
  \<^bold>\<open>C4.\<close> As stated the claim names the titles \<open>Overbought\<close> and \<open>Elevated\<close>;
  the source writes \<open>MVRV Overbought\<close> and \<open>MVRV Elevated\<close>. For MVRV 2.6 and
  sentiment 50 the single alert has level MEDIUM and a title that is not
  \<open>Elevated\<close>.
\<close>

theorem buildAlerts_title_counterexample:
  "buildAlerts (Some \<lparr>dash_state.mvrv = Some \<lparr>current = Num (Fin (26 / 10))\<rparr>,
                        fngValue = Num (Fin 50)\<rparr>)
     = [\<lparr>level = MEDIUM, alert.title = ''MVRV Elevated'',
         desc = [Lit ''MVRV at '', ToFixed2 (Fin (26 / 10)), Lit '' (>= 2.5).'']\<rparr>]
   \<and> alert.title (hd (buildAlerts (Some \<lparr>dash_state.mvrv = Some \<lparr>current = Num (Fin (26 / 10))\<rparr>,
                        fngValue = Num (Fin 50)\<rparr>))) \<noteq> ''Elevated''"
  by (simp add: buildAlerts_def snapshot_simps mvrv_alerts_finite fng_alerts_finite)

text \<open>
  \<^bold>\<open>C4, amended.\<close> The engine is a function of the current MVRV value and the
  sentiment value alone. A finite MVRV \<open>x\<close> gives one HIGH alert titled
  \<open>MVRV Overbought\<close> iff \<open>x \<ge> 3.0\<close>, else one MEDIUM alert titled
  \<open>MVRV Elevated\<close> iff \<open>x \<ge> 2.5\<close>, else none (so at most one alert of the MVRV
  tier), followed by what the sentiment rule gives; a finite sentiment \<open>y\<close> gives one
  MEDIUM alert titled \<open>Extreme Greed\<close> iff \<open>y \<ge> 70\<close>. Of the numbers that are
  not finite, positive infinity passes every threshold (HIGH \<open>MVRV Overbought\<close>,
  MEDIUM \<open>Extreme Greed\<close>), while NaN and negative infinity pass none and give no
  alert for their signal. A value that is not a number gives no alert for its
  signal, and an absent state gives none at all. In particular (3.1, 80) gives
  exactly two alerts, HIGH then MEDIUM; (2.6, 50) gives exactly one, MEDIUM and
  titled \<open>MVRV Elevated\<close>; (1.0, 20) gives none.
\<close>

theorem buildAlerts_thresholds:
  "buildAlerts (Some \<lparr>dash_state.mvrv = Some \<lparr>current = Num (Fin x)\<rparr>, fngValue = fg\<rparr>) =
     (if 3 \<le> x then
        [\<lparr>level = HIGH, alert.title = ''MVRV Overbought'',
          desc = [Lit ''MVRV at '', ToFixed2 (Fin x), Lit '' (>= 3.0).'']\<rparr>]
      else if 5 / 2 \<le> x then
        [\<lparr>level = MEDIUM, alert.title = ''MVRV Elevated'',
          desc = [Lit ''MVRV at '', ToFixed2 (Fin x), Lit '' (>= 2.5).'']\<rparr>]
      else [])
     @ buildAlerts (Some \<lparr>dash_state.mvrv = None, fngValue = fg\<rparr>)
   \<and> buildAlerts (Some \<lparr>dash_state.mvrv = Some \<lparr>current = Num PosInf\<rparr>, fngValue = fg\<rparr>) =
       [\<lparr>level = HIGH, alert.title = ''MVRV Overbought'',
         desc = [Lit ''MVRV at '', ToFixed2 PosInf, Lit '' (>= 3.0).'']\<rparr>]
       @ buildAlerts (Some \<lparr>dash_state.mvrv = None, fngValue = fg\<rparr>)
   \<and> buildAlerts (Some \<lparr>dash_state.mvrv = Some \<lparr>current = Num NegInf\<rparr>, fngValue = fg\<rparr>) =
       buildAlerts (Some \<lparr>dash_state.mvrv = None, fngValue = fg\<rparr>)
   \<and> buildAlerts (Some \<lparr>dash_state.mvrv = Some \<lparr>current = Num NaN\<rparr>, fngValue = fg\<rparr>) =
       buildAlerts (Some \<lparr>dash_state.mvrv = None, fngValue = fg\<rparr>)
   \<and> buildAlerts (Some \<lparr>dash_state.mvrv = None, fngValue = Num (Fin y)\<rparr>) =
       (if 70 \<le> y then
          [\<lparr>level = MEDIUM, alert.title = ''Extreme Greed'',
            desc = [Lit ''Fear & Greed = '', ToString (Fin y), Lit ''.'']\<rparr>]
        else [])
   \<and> buildAlerts (Some \<lparr>dash_state.mvrv = None, fngValue = Num PosInf\<rparr>) =
       [\<lparr>level = MEDIUM, alert.title = ''Extreme Greed'',
         desc = [Lit ''Fear & Greed = '', ToString PosInf, Lit ''.'']\<rparr>]
   \<and> buildAlerts (Some \<lparr>dash_state.mvrv = None, fngValue = Num NegInf\<rparr>) = []
   \<and> buildAlerts (Some \<lparr>dash_state.mvrv = None, fngValue = Num NaN\<rparr>) = []
   \<and> ((\<forall>n. mv \<noteq> Num n) \<longrightarrow>
        buildAlerts (Some \<lparr>dash_state.mvrv = Some \<lparr>current = mv\<rparr>, fngValue = fg\<rparr>) =
        buildAlerts (Some \<lparr>dash_state.mvrv = None, fngValue = fg\<rparr>))
   \<and> ((\<forall>n. fg' \<noteq> Num n) \<longrightarrow>
        buildAlerts (Some \<lparr>dash_state.mvrv = None, fngValue = fg'\<rparr>) = [])
   \<and> buildAlerts None = []
   \<and> map level (buildAlerts (Some \<lparr>dash_state.mvrv = Some \<lparr>current = Num (Fin (31 / 10))\<rparr>,
                                     fngValue = Num (Fin 80)\<rparr>)) = [HIGH, MEDIUM]
   \<and> map (\<lambda>a. (level a, alert.title a))
         (buildAlerts (Some \<lparr>dash_state.mvrv = Some \<lparr>current = Num (Fin (26 / 10))\<rparr>,
                             fngValue = Num (Fin 50)\<rparr>)) = [(MEDIUM, ''MVRV Elevated'')]
   \<and> buildAlerts (Some \<lparr>dash_state.mvrv = Some \<lparr>current = Num (Fin 1)\<rparr>,
                          fngValue = Num (Fin 20)\<rparr>) = []"
proof -
  have fg_only: "snapshot_fg (Some \<lparr>dash_state.mvrv = m, fngValue = g\<rparr>) =
      snapshot_fg (Some \<lparr>dash_state.mvrv = None, fngValue = g\<rparr>)" for m g
    by (simp add: snapshot_fg_def)
  show ?thesis
    by (simp add: buildAlerts_def snapshot_simps mvrv_alerts_finite fng_alerts_finite
          mvrv_alerts_not_finite fng_alerts_not_finite alerts_unknown fg_only [of "Some _"])
qed

theorem buildAlerts_thresholds_witness:
  "buildAlerts (Some \<lparr>dash_state.mvrv = Some \<lparr>current = Num (Fin (31 / 10))\<rparr>,
                        fngValue = Num (Fin 80)\<rparr>) =
     [\<lparr>level = HIGH, alert.title = ''MVRV Overbought'',
       desc = [Lit ''MVRV at '', ToFixed2 (Fin (31 / 10)), Lit '' (>= 3.0).'']\<rparr>,
      \<lparr>level = MEDIUM, alert.title = ''Extreme Greed'',
       desc = [Lit ''Fear & Greed = '', ToString (Fin 80), Lit ''.'']\<rparr>]
   \<and> buildAlerts (Some \<lparr>dash_state.mvrv = Some \<lparr>current = Null\<rparr>, fngValue = Num (Fin 80)\<rparr>) =
     [\<lparr>level = MEDIUM, alert.title = ''Extreme Greed'',
       desc = [Lit ''Fear & Greed = '', ToString (Fin 80), Lit ''.'']\<rparr>]
   \<and> buildAlerts (Some \<lparr>dash_state.mvrv = Some \<lparr>current = Num NaN\<rparr>, fngValue = Num (Fin 80)\<rparr>) =
     [\<lparr>level = MEDIUM, alert.title = ''Extreme Greed'',
       desc = [Lit ''Fear & Greed = '', ToString (Fin 80), Lit ''.'']\<rparr>]
   \<and> buildAlerts (Some \<lparr>dash_state.mvrv = None, fngValue = Undefined\<rparr>) = []"
  using buildAlerts_thresholds [where x = "31 / 10" and fg = "Num (Fin 80)" and y = 80
      and mv = Null and fg' = Undefined]
  by simp

section \<open>Text search filter\<close>

text \<open>
  The filter raises as soon as its callback raises on a post, and otherwise keeps the
  posts on which the callback returns true, in their order.
\<close>

lemma filter_posts_raises:
  "p \<in> set ps \<Longrightarrow> f p = Inl TypeError \<Longrightarrow> filter_posts f ps = Inl TypeError"
proof (induction ps)
  case Nil
  then show ?case by simp
next
  case (Cons a ps)
  show ?case
  proof (cases "f a")
    case (Inl e)
    then show ?thesis by (cases e) simp
  next
    case (Inr b)
    with Cons.prems have "p \<in> set ps" by auto
    with Cons.IH Cons.prems(2) Inr show ?thesis by simp
  qed
qed

lemma filter_posts_returns:
  "\<forall>p \<in> set ps. f p = Inr (g p) \<Longrightarrow> filter_posts f ps = Inr (filter g ps)"
  by (induction ps) simp_all

text \<open>
  The callback raises exactly on a post whose slug is not a loaded body of the content
  map but the name of a property that the map inherits.
\<close>

lemma post_matches_inherited:
  "content_lookup contentMap (slug p) = Inherited \<Longrightarrow>
     post_matches lc query contentMap p = Inl TypeError"
  by (simp add: post_matches_def or_empty_prop_def)

lemma searchPosts_inherited_raises:
  assumes "q \<noteq> []" and "p \<in> set posts"
    and "content_lookup contentMap (slug p) = Inherited"
  shows "searchPosts lc posts (Some q) contentMap = Inl TypeError"
  using assms by (simp add: searchPosts_def filter_posts_raises post_matches_inherited)

text \<open>
  On every other post, and for a case mapping that maps only the empty string to the
  empty string, the callback is the match predicate of the specification: a missing
  excerpt, tags that are not an array, an absent content map and a body that is not
  loaded all contribute nothing.
\<close>

lemma post_matches_spec:
  assumes lc: "\<forall>s. (lc s = []) = (s = [])" and "q \<noteq> []"
    and "content_lookup contentMap (slug p) \<noteq> Inherited"
  shows "post_matches lc (lc q) contentMap p = Inr (spec_matches lc q (loaded_bodies contentMap) p)"
proof -
  have lq: "lc q \<noteq> []" using assms(1,2) by simp
  have e: "lc [] = []" using lc by simp
  have ex: "js_includes (lc (or_empty (excerpt p))) (lc q) =
      (case excerpt p of None \<Rightarrow> False | Some e \<Rightarrow> sublist (lc q) (lc e))"
    using lq by (cases "excerpt p") (simp_all add: or_empty_def js_includes_def e)
  show ?thesis
  proof (cases "content_lookup contentMap (slug p)")
    case Missing
    then have "loaded_bodies contentMap (slug p) = None"
      by (auto simp: content_lookup_def loaded_bodies_def split: option.splits if_splits)
    with Missing lq show ?thesis
      unfolding post_matches_def spec_matches_def Let_def ex
      by (cases "tags p") (simp_all add: js_includes_def or_empty_prop_def e)
  next
    case (Body s)
    then have "loaded_bodies contentMap (slug p) = Some s"
      by (auto simp: content_lookup_def loaded_bodies_def split: option.splits if_splits)
    with Body show ?thesis
      unfolding post_matches_def spec_matches_def Let_def ex
      by (cases "tags p") (simp_all add: js_includes_def or_empty_prop_def)
  next
    case Inherited
    with assms(3) show ?thesis by simp
  qed
qed

lemma searchPosts_filter_without_inherited:
  assumes "\<forall>s. (lc s = []) = (s = [])"
    and "\<forall>p \<in> set posts. content_lookup contentMap (slug p) \<noteq> Inherited"
  shows "searchPosts lc posts q contentMap =
     Inr (if q = None \<or> q = Some [] then posts
          else filter (spec_matches lc (the q) (loaded_bodies contentMap)) posts)"
proof (cases "q = None \<or> q = Some []")
  case True
  then show ?thesis by (auto simp: searchPosts_def)
next
  case False
  then obtain qs where q: "q = Some qs" "qs \<noteq> []" by (cases q) auto
  have "filter_posts (post_matches lc (lc qs) contentMap) posts =
      Inr (filter (spec_matches lc qs (loaded_bodies contentMap)) posts)"
    using assms q(2) by (intro filter_posts_returns) (simp add: post_matches_spec)
  then show ?thesis using q by (simp add: searchPosts_def)
qed

text \<open>
  \<^bold>\<open>C5.\<close> The claim (for every post collection, query and content map the filter
  returns the subsequence of the matching posts) fails in the code on a collection
  that holds a post whose slug is the name of a property inherited by the content
  map. For the query \<open>alpha\<close>, the content map \<^verbatim>\<open>{ mvrv: "mvrv details" }\<close> and
  the two posts with slugs \<open>a\<close> (tag \<open>alpha\<close>) and \<open>constructor\<close>, the claimed
  result is the first post alone; the code raises at
  \<^verbatim>\<open>content.toLowerCase()\<close>, whatever the case mapping.
\<close>

theorem searchPosts_raises_instead_of_filtering:
  "searchPosts lc
     [\<lparr>slug = ''a'', title = ''Teste A'', date = ''2025-08-12'', excerpt = Some ''foo bar'',
       tags = Some [''alpha''], mdPath = ''/posts/a.md''\<rparr>,
      \<lparr>slug = ''constructor'', title = ''Constructor notes'', date = ''2025-08-10'',
       excerpt = Some ''objects'', tags = Some [''js''], mdPath = ''/posts/constructor.md''\<rparr>]
     (Some ''alpha'') (Some [''mvrv'' \<mapsto> ''mvrv details''])
   = Inl TypeError"
  by (simp add: searchPosts_def post_matches_def or_empty_prop_def content_lookup_def
        object_prototype_keys_def Let_def split: sum.splits)

theorem searchPosts_raises_witness:
  "searchPosts (\<lambda>s. s)
     [\<lparr>slug = ''a'', title = ''Teste A'', date = ''2025-08-12'', excerpt = Some ''foo bar'',
       tags = Some [''alpha''], mdPath = ''/posts/a.md''\<rparr>,
      \<lparr>slug = ''constructor'', title = ''Constructor notes'', date = ''2025-08-10'',
       excerpt = Some ''objects'', tags = Some [''js''], mdPath = ''/posts/constructor.md''\<rparr>]
     (Some ''alpha'') (Some [''mvrv'' \<mapsto> ''mvrv details''])
   \<noteq> Inr [\<lparr>slug = ''a'', title = ''Teste A'', date = ''2025-08-12'', excerpt = Some ''foo bar'',
            tags = Some [''alpha''], mdPath = ''/posts/a.md''\<rparr>]"
  using searchPosts_raises_instead_of_filtering [of "\<lambda>s. s"] by simp

text \<open>
  \<^bold>\<open>C6.\<close> The claim (a post that does not match by title, excerpt or tags is
  excluded when its body is absent from the content map) fails in the code for a post
  whose slug is \<open>constructor\<close>: with the query \<open>mvrv\<close> and the empty content map
  \<^verbatim>\<open>{}\<close> the lookup \<^verbatim>\<open>contentMap?.[p.slug]\<close> finds the inherited
  property, which is not a string, and the search raises instead of returning the
  empty result.
\<close>

theorem content_absent_raises_on_inherited_slug:
  "content_lookup (Some Map.empty) ''constructor'' = Inherited
   \<and> searchPosts lc
       [\<lparr>slug = ''constructor'', title = ''Teste A'', date = ''2025-08-12'',
         excerpt = Some ''foo bar'', tags = Some [''alpha''], mdPath = ''/posts/a.md''\<rparr>]
       (Some ''mvrv'') (Some Map.empty)
     = Inl TypeError"
  by (simp add: searchPosts_def post_matches_def or_empty_prop_def content_lookup_def
        object_prototype_keys_def Let_def)

theorem content_absent_raises_witness:
  "\<forall>r. searchPosts (\<lambda>s. s)
       [\<lparr>slug = ''constructor'', title = ''Teste A'', date = ''2025-08-12'',
         excerpt = Some ''foo bar'', tags = Some [''alpha''], mdPath = ''/posts/a.md''\<rparr>]
       (Some ''mvrv'') (Some Map.empty)
     \<noteq> Inr r"
  using content_absent_raises_on_inherited_slug [of "\<lambda>s. s"] by simp

section \<open>Markdown renderer\<close>

text \<open>
  A word without asterisks and line terminators between two double asterisks is
  closed by the second pair, and text without asterisks passes both emphasis stages
  unchanged.
\<close>

lemma lazy_until_closing:
  assumes "CHR ''*'' \<notin> set w" and "\<forall>c \<in> set w. \<not> is_line_terminator c"
  shows "lazy_until ''**'' (w @ ''**'' @ r) = Some (w, r)"
  using assms by (induction w) auto

lemma delim_replace_no_star:
  assumes "CHR ''*'' \<notin> set s" and "d = ''*'' \<or> d = ''**''"
  shows "delim_replace d opn cls s = s"
  using assms by (induction s) auto

lemma bold_then_italic:
  assumes "CHR ''*'' \<notin> set w" and "\<forall>c \<in> set w. \<not> is_line_terminator c"
  shows "md_italic (md_bold (''**'' @ w @ ''**'')) = ''<strong>'' @ w @ ''</strong>''"
proof -
  have "md_bold (''**'' @ w @ ''**'') = ''<strong>'' @ w @ ''</strong>''"
    using lazy_until_closing [OF assms, of "[]"] by (simp add: md_bold_def)
  moreover have "CHR ''*'' \<notin> set (''<strong>'' @ w @ ''</strong>'')"
    using assms(1) by simp
  then have "md_italic (''<strong>'' @ w @ ''</strong>'') = ''<strong>'' @ w @ ''</strong>''"
    unfolding md_italic_def by (rule delim_replace_no_star) simp
  ultimately show ?thesis by simp
qed

lemma fixture_rendered:
  "Markdown ''# Title\<newline>\<newline>**bold** and *italic*'' =
     ''<h1 class=\"text-2xl font-bold mt-8 mb-4\">Title</h1><br/><br/><strong>bold</strong> and <em>italic</em>''"
  by code_simp

lemma fixture_contains:
  "sublist ''<h1 class=\"text-2xl font-bold mt-8 mb-4\">Title</h1>''
     ''<h1 class=\"text-2xl font-bold mt-8 mb-4\">Title</h1><br/><br/><strong>bold</strong> and <em>italic</em>''"
  "sublist ''<strong>bold</strong>''
     ''<h1 class=\"text-2xl font-bold mt-8 mb-4\">Title</h1><br/><br/><strong>bold</strong> and <em>italic</em>''"
  "sublist ''<em>italic</em>''
     ''<h1 class=\"text-2xl font-bold mt-8 mb-4\">Title</h1><br/><br/><strong>bold</strong> and <em>italic</em>''"
  by code_simp+

lemma italic_first_differs:
  "md_bold (md_italic ''**bold**'') = ''<em></em>bold<em></em>''"
  by code_simp

text \<open>
  \<^bold>\<open>C8.\<close> The renderer applies the bold stage before the italic stage: a word
  between double asterisks comes out wrapped in the bold tag (with the stages
  swapped, the single-asterisk pattern would eat the double asterisks). On the
  fixture \<^verbatim>\<open>"# Title\n\n**bold** and *italic*"\<close> the output contains the
  level-1 heading tag around \<open>Title\<close>, the bold tag around \<open>bold\<close> and the italic
  tag around \<open>italic\<close>.
\<close>

theorem Markdown_bold_before_italic:
  "Markdown text =
     link_replace (break_replace (md_list (md_code (md_italic (md_bold
       (md_quote (md_h1 (md_h2 (md_h3 text)))))))))
   \<and> (CHR ''*'' \<notin> set w \<and> (\<forall>c \<in> set w. \<not> is_line_terminator c) \<longrightarrow>
        md_italic (md_bold (''**'' @ w @ ''**'')) = ''<strong>'' @ w @ ''</strong>'')
   \<and> md_bold (md_italic ''**bold**'') = ''<em></em>bold<em></em>''
   \<and> Markdown ''# Title\<newline>\<newline>**bold** and *italic*'' =
       ''<h1 class=\"text-2xl font-bold mt-8 mb-4\">Title</h1><br/><br/><strong>bold</strong> and <em>italic</em>''
   \<and> sublist ''<h1 class=\"text-2xl font-bold mt-8 mb-4\">Title</h1>''
         (Markdown ''# Title\<newline>\<newline>**bold** and *italic*'')
   \<and> sublist ''<strong>bold</strong>'' (Markdown ''# Title\<newline>\<newline>**bold** and *italic*'')
   \<and> sublist ''<em>italic</em>'' (Markdown ''# Title\<newline>\<newline>**bold** and *italic*'')"
  using bold_then_italic [of w] italic_first_differs fixture_contains
  by (simp only: fixture_rendered) (simp add: Markdown_def)

theorem Markdown_bold_before_italic_witness:
  "md_italic (md_bold ''**bold**'') = ''<strong>bold</strong>''"
proof -
  have "CHR ''*'' \<notin> set ''bold'' \<and> (\<forall>c \<in> set ''bold''. \<not> is_line_terminator c)"
    by (simp add: is_line_terminator_def)
  with Markdown_bold_before_italic [of "[]" "''bold''"]
  have "md_italic (md_bold (''**'' @ ''bold'' @ ''**'')) = ''<strong>'' @ ''bold'' @ ''</strong>''"
    by blast
  then show ?thesis by simp
qed

section \<open>Totality on the documented domains\<close>

text \<open>
  The documented defaults on empty input: the search filter returns the full
  collection for an absent or empty query, the renderer the empty string for the
  empty string, the merger the empty sequence for two empty or two absent sequences,
  the tick generator the empty sequence for an absent or empty series, the alert
  engine no alert for an absent state. The merger returns on every pair of arrays.
\<close>

lemma searchPosts_no_query:
  "searchPosts lc posts None contentMap = Inr posts"
  "searchPosts lc posts (Some []) contentMap = Inr posts"
  by (simp_all add: searchPosts_def)

lemma Markdown_empty: "Markdown [] = []"
  by (simp add: Markdown_def md_h3_def md_h2_def md_h1_def md_quote_def md_bold_def
        md_italic_def md_code_def md_list_def)

lemma mergeSeries_returns_on_arrays:
  "\<exists>out. mergeSeries (Some priceArr) (Some mvrvArr) = Inr out"
  "mergeSeries (Some []) (Some []) = Inr []"
  by (simp_all add: mergeSeries_walk)

lemma compute10DayTicks_empty:
  "compute10DayTicks None = Some []"
  "compute10DayTicks (Some []) = Some []"
  by (simp_all add: compute10DayTicks_def)

lemma buildAlerts_no_number:
  "buildAlerts None = []"
  "(\<forall>n. mv \<noteq> Num n) \<and> (\<forall>n. fg \<noteq> Num n) \<Longrightarrow>
     buildAlerts (Some \<lparr>dash_state.mvrv = None, fngValue = fg\<rparr>) = []
     \<and> buildAlerts (Some \<lparr>dash_state.mvrv = Some \<lparr>current = mv\<rparr>, fngValue = fg\<rparr>) = []"
  by (auto simp: buildAlerts_def snapshot_mv_def snapshot_fg_def mvrv_alerts_def fng_alerts_def
        split: jsval.splits)

text \<open>
  \<^bold>\<open>C9.\<close> The claim (none of the six functions raises on its documented domain;
  each degrades to its default on empty or malformed input) fails in the code for two
  of them. The search filter raises on a post whose slug is the name of a property
  that the content map inherits and does not hold as a loaded body: for the query
  \<open>kpi\<close>, the empty content map \<^verbatim>\<open>{}\<close> and one post with the slug
  \<open>toString\<close>, the call \<^verbatim>\<open>content.toLowerCase()\<close> raises. The merger
  reads the lengths of its arguments with \<^verbatim>\<open>priceArr?.length || 0\<close>, which
  tolerates an absent array, and then indexes the absent array
  (\<^verbatim>\<open>priceArr[i]\<close>, \<^verbatim>\<open>mvrvArr[j]\<close>): with one array absent and the
  other holding one point it raises instead of draining the other.
\<close>

theorem core_functions_raise:
  "searchPosts lc
     [\<lparr>slug = ''toString'', title = ''Gestao'', date = ''2025-08-10'',
       excerpt = Some ''KPIs e margem'', tags = Some [''kpi'', ''gestao''],
       mdPath = ''/posts/gestao.md''\<rparr>]
     (Some ''kpi'') (Some Map.empty)
   = Inl TypeError
   \<and> mergeSeries None (Some [\<lparr>t = 0, price = Undefined, mvrv = Num (Fin 1)\<rparr>]) = Inl TypeError
   \<and> mergeSeries (Some [\<lparr>t = 0, price = Num (Fin 100), mvrv = Undefined\<rparr>]) None = Inl TypeError"
  by (simp add: searchPosts_def post_matches_def or_empty_prop_def content_lookup_def
        object_prototype_keys_def Let_def mergeSeries_absent_price_raises
        mergeSeries_absent_mvrv_raises)

theorem core_functions_raise_witness:
  "(\<forall>r. searchPosts (\<lambda>s. s)
       [\<lparr>slug = ''toString'', title = ''Gestao'', date = ''2025-08-10'',
         excerpt = Some ''KPIs e margem'', tags = Some [''kpi'', ''gestao''],
         mdPath = ''/posts/gestao.md''\<rparr>]
       (Some ''kpi'') (Some Map.empty) \<noteq> Inr r)
   \<and> (\<forall>out. mergeSeries None (Some [\<lparr>t = 0, price = Undefined, mvrv = Num (Fin 1)\<rparr>])
            \<noteq> Inr out)
   \<and> (\<forall>out. mergeSeries (Some [\<lparr>t = 0, price = Num (Fin 100), mvrv = Undefined\<rparr>]) None
            \<noteq> Inr out)"
  using core_functions_raise [of "\<lambda>s. s"] by simp

end
